theory Spec2Isabelle
  imports Complex_Main
begin

section \<open>Strings\<close>

text \<open>
  Query strings and all rendered text are lists of 8-bit characters, read as the
  ISO-8859-1 code units of the JavaScript string. Numbers that the engine prints are
  integers; they are rendered in decimal as \<open>String(n)\<close> does for integers of ordinary
  size.
\<close>

definition isDigit :: "char \<Rightarrow> bool" where
  "isDigit c = (48 \<le> (of_char c :: nat) \<and> (of_char c :: nat) \<le> 57)"

definition isUpper :: "char \<Rightarrow> bool" where
  "isUpper c = (let n = (of_char c :: nat) in
     (65 \<le> n \<and> n \<le> 90) \<or> (192 \<le> n \<and> n \<le> 222 \<and> n \<noteq> 215))"

definition isLower :: "char \<Rightarrow> bool" where
  "isLower c = (let n = (of_char c :: nat) in
     (97 \<le> n \<and> n \<le> 122) \<or> (224 \<le> n \<and> n \<le> 254 \<and> n \<noteq> 247))"

text \<open>\<open>\w\<close> of a regular expression without the unicode flag: \<open>[A-Za-z0-9_]\<close>.\<close>

definition isWordChar :: "char \<Rightarrow> bool" where
  "isWordChar c = (let n = (of_char c :: nat) in
     (48 \<le> n \<and> n \<le> 57) \<or> (65 \<le> n \<and> n \<le> 90) \<or> n = 95 \<or> (97 \<le> n \<and> n \<le> 122))"

text \<open>White space of \<open>\s\<close> and of \<open>trim\<close>, among the 8-bit code units: tab, line feed,
  vertical tab, form feed, carriage return, space and the no-break space.\<close>

definition isSpace :: "char \<Rightarrow> bool" where
  "isSpace c = (let n = (of_char c :: nat) in (9 \<le> n \<and> n \<le> 13) \<or> n = 32 \<or> n = 160)"

text \<open>A letter and its other case differ by 32, which is bit 5 of the code unit.\<close>

definition setBit5 :: "bool \<Rightarrow> char \<Rightarrow> char" where
  "setBit5 b c = (case c of Char b0 b1 b2 b3 b4 b5 b6 b7 \<Rightarrow> Char b0 b1 b2 b3 b4 b b6 b7)"

definition lowerChar :: "char \<Rightarrow> char" where
  "lowerChar c = (if isUpper c then setBit5 True c else c)"

definition upperChar :: "char \<Rightarrow> char" where
  "upperChar c = (if isLower c then setBit5 False c else c)"

definition toLowerCase :: "string \<Rightarrow> string" where
  "toLowerCase s = map lowerChar s"

definition toUpperCase :: "string \<Rightarrow> string" where
  "toUpperCase s = map upperChar s"

definition trim :: "string \<Rightarrow> string" where
  "trim s = rev (dropWhile isSpace (rev (dropWhile isSpace s)))"

fun startsWith :: "string \<Rightarrow> string \<Rightarrow> bool" where
  "startsWith [] s = True"
| "startsWith (c # w) [] = False"
| "startsWith (c # w) (d # s) = (c = d \<and> startsWith w s)"

text \<open>\<open>s.includes(w)\<close>: \<open>w\<close> occurs in \<open>s\<close> as a contiguous substring.\<close>

fun includesStr :: "string \<Rightarrow> string \<Rightarrow> bool" where
  "includesStr [] w = (w = [])"
| "includesStr (c # s) w = (startsWith w (c # s) \<or> includesStr s w)"

fun join :: "string \<Rightarrow> string list \<Rightarrow> string" where
  "join sep [] = []"
| "join sep [x] = x"
| "join sep (x # y # ys) = x @ sep @ join sep (y # ys)"

definition digitOf :: "nat \<Rightarrow> char" where
  "digitOf d = char_of (48 + d)"

definition digitVal :: "char \<Rightarrow> nat" where
  "digitVal c = (of_char c :: nat) - 48"

fun showNat :: "nat \<Rightarrow> string" where
  "showNat n = (if n < 10 then [digitOf n] else showNat (n div 10) @ [digitOf (n mod 10)])"

declare showNat.simps [simp del]

definition showInt :: "int \<Rightarrow> string" where
  "showInt i = (if i < 0 then CHR ''-'' # showNat (nat (- i)) else showNat (nat i))"

text \<open>\<open>parseInt\<close> is only ever applied to the text captured by \<open>(\d+)\<close>, a non-empty
  run of decimal digits, whose value it returns.\<close>

definition parseInt :: "string \<Rightarrow> nat" where
  "parseInt s = foldl (\<lambda>acc c. acc * 10 + digitVal c) 0 (takeWhile isDigit s)"

definition padStart2 :: "string \<Rightarrow> string" where
  "padStart2 s = replicate (2 - length s) (CHR ''0'') @ s"

section \<open>Regular expressions\<close>

text \<open>
  The engine's patterns are sequences of: a word boundary \<open>\b\<close>, an alternation of
  literal words, a character class (once, \<open>*\<close> or \<open>+\<close>), and a capturing group around one
  of these. Matching is JavaScript's backtracking search: every atom yields its possible
  continuations in priority order (greedy quantifiers the longest first, alternatives
  left to right), the first complete continuation at the leftmost start position is the
  match. All patterns carry the \<open>i\<close> flag, under which an ASCII letter of the pattern
  matches itself in either case; patterns are written in lower case and the input
  character is lowered before it is compared.
\<close>

datatype cls = Digit | Space | Chars "char list"

datatype atom = Bnd | Words "string list" | One cls | Star cls | Plus cls | Grp atom

type_synonym regex = "atom list"

text \<open>A matcher state: the character before the position, the rest of the input and
  the captures made so far, in the order of their groups.\<close>

type_synonym mstate = "char option \<times> string \<times> string list"

definition asciiLower :: "char \<Rightarrow> char" where
  "asciiLower c = (let n = (of_char c :: nat) in if 65 \<le> n \<and> n \<le> 90 then setBit5 True c else c)"

fun inCls :: "cls \<Rightarrow> char \<Rightarrow> bool" where
  "inCls Digit c = isDigit c"
| "inCls Space c = isSpace c"
| "inCls (Chars cs) c = (asciiLower c \<in> set cs)"

fun consume :: "nat \<Rightarrow> char option \<Rightarrow> string \<Rightarrow> char option \<times> string" where
  "consume 0 p s = (p, s)"
| "consume (Suc n) p [] = (p, [])"
| "consume (Suc n) p (c # s) = consume n (Some c) s"

definition isWordOpt :: "char option \<Rightarrow> bool" where
  "isWordOpt p = (case p of None \<Rightarrow> False | Some c \<Rightarrow> isWordChar c)"

definition nextChar :: "string \<Rightarrow> char option" where
  "nextChar s = (case s of [] \<Rightarrow> None | c # _ \<Rightarrow> Some c)"

text \<open>A literal word of a pattern, written in lower case, read at the head of the input.\<close>

fun startsWithCI :: "string \<Rightarrow> string \<Rightarrow> bool" where
  "startsWithCI [] s = True"
| "startsWithCI (c # w) [] = False"
| "startsWithCI (c # w) (d # s) = (c = asciiLower d \<and> startsWithCI w s)"

definition wordAt :: "string \<Rightarrow> char option \<Rightarrow> string \<Rightarrow> (char option \<times> string) list" where
  "wordAt w p s = (if startsWithCI w s then [consume (length w) p s] else [])"

fun atomM :: "atom \<Rightarrow> char option \<Rightarrow> string \<Rightarrow> (char option \<times> string) list" where
  "atomM Bnd p s = (if isWordOpt p \<noteq> isWordOpt (nextChar s) then [(p, s)] else [])"
| "atomM (Words ws) p s = concat (map (\<lambda>w. wordAt w p s) ws)"
| "atomM (One C) p s = (case s of [] \<Rightarrow> [] | c # s' \<Rightarrow> if inCls C c then [(Some c, s')] else [])"
| "atomM (Star C) p s = map (\<lambda>j. consume j p s) (rev [0 ..< Suc (length (takeWhile (inCls C) s))])"
| "atomM (Plus C) p s = map (\<lambda>j. consume j p s) (rev [1 ..< Suc (length (takeWhile (inCls C) s))])"
| "atomM (Grp a) p s = atomM a p s"

fun stepM :: "atom \<Rightarrow> mstate \<Rightarrow> mstate list" where
  "stepM (Grp a) (p, s, caps) =
     map (\<lambda>(p', s'). (p', s', caps @ [take (length s - length s') s])) (atomM a p s)"
| "stepM a (p, s, caps) = map (\<lambda>(p', s'). (p', s', caps)) (atomM a p s)"

fun seqM :: "regex \<Rightarrow> mstate \<Rightarrow> mstate list" where
  "seqM [] st = [st]"
| "seqM (a # as) st = concat (map (seqM as) (stepM a st))"

text \<open>\<open>s.match(re)\<close> for a pattern without the global flag: the captures of the first
  match, trying the start positions from left to right; \<open>None\<close> is \<open>null\<close>.\<close>

fun searchFrom :: "regex \<Rightarrow> char option \<Rightarrow> string \<Rightarrow> string list option" where
  "searchFrom re p [] = (case seqM re (p, [], []) of [] \<Rightarrow> None | (_, _, caps) # _ \<Rightarrow> Some caps)"
| "searchFrom re p (c # s) =
     (case seqM re (p, c # s, []) of
        [] \<Rightarrow> searchFrom re (Some c) s
      | (_, _, caps) # _ \<Rightarrow> Some caps)"

definition rmatch :: "regex \<Rightarrow> string \<Rightarrow> string list option" where
  "rmatch re s = searchFrom re None s"

definition rtest :: "regex \<Rightarrow> string \<Rightarrow> bool" where
  "rtest re s = (rmatch re s \<noteq> None)"

definition kwPattern :: "string list \<Rightarrow> regex" where
  "kwPattern ws = [Bnd, Grp (Words ws), Bnd]"


section \<open>Data model\<close>

text \<open>
  The snapshot as the warehouse data provider builds it and as the engine reads it.
  Robot ids and array lengths are natural numbers, the other numeric fields integers.
  Statuses, priorities and traffic densities are the strings the provider stores.
  \<open>currentTask\<close> may be \<open>null\<close>.
\<close>

record Robot =
  r_id :: nat
  r_name :: string
  r_status :: string
  r_zoneId :: string
  r_batteryLevel :: int
  r_currentTask :: "string option"
  r_currentTool :: string
  r_efficiency :: int
  r_coordinates :: "int \<times> int"

record Zone =
  z_id :: string
  z_name :: string
  z_priority :: string
  z_robotCount :: int
  z_tasksPending :: int
  z_tasksCompleted :: int
  z_efficiency :: int
  z_trafficDensity :: string

record Activity =
  a_id :: nat
  a_type :: string
  a_iconName :: string
  a_message :: string
  a_timestamp :: int

record WarehouseOverview =
  o_activeRobots :: int
  o_totalRobots :: int
  o_tasksCompleted :: int
  o_robotEfficiency :: int

record WarehouseDataType =
  robots :: "Robot list"
  zones :: "Zone list"
  activities :: "Activity list"
  overview :: WarehouseOverview
  getRobotById :: "nat \<Rightarrow> Robot option"
  getZoneById :: "string \<Rightarrow> Zone option"

text \<open>The response envelope. \<open>data\<close> is \<open>null\<close>, one entity, an array of entities or
  the overview. A \<open>Record<string, number>\<close> is an association list in insertion order.\<close>

datatype ResponseType =
  TyRobot | TyZone | TyMultiRobot | TyMultiZone | TyOverview | TyComparison
  | TyOptimization | TyError | TyText

datatype ResponseData =
  DNull | DRobot Robot | DZone Zone | DRobots "Robot list" | DZones "Zone list"
  | DOverview WarehouseOverview

datatype SecondaryData = SLines "string list" | SCounts "(string \<times> int) list"

record Metadata =
  secondaryData :: "SecondaryData option"
  chartData :: "(string \<times> int) list option"
  comparisonType :: "string option"
  metricName :: "string option"

record QueryResponse =
  title :: string
  rdata :: ResponseData
  rtype :: ResponseType
  metadata :: "Metadata option"

record Result =
  message :: string
  response :: QueryResponse

text \<open>Reading a property of \<open>undefined\<close> throws a \<open>TypeError\<close>; it is the only exception
  the engine can raise.\<close>

datatype error = TypeError

definition noMeta :: Metadata where
  "noMeta = \<lparr>secondaryData = None, chartData = None, comparisonType = None, metricName = None\<rparr>"

definition reply :: "string \<Rightarrow> string \<Rightarrow> ResponseData \<Rightarrow> ResponseType \<Rightarrow> Metadata option \<Rightarrow> error + Result" where
  "reply msg ttl d ty md =
     Inr \<lparr>message = msg, response = \<lparr>title = ttl, rdata = d, rtype = ty, metadata = md\<rparr>\<rparr>"

section \<open>The detectors\<close>

definition robotIdPattern :: regex where
  "robotIdPattern = [Bnd, Grp (Words [''amr'', ''robot'']), Star Space, Grp (Plus Digit), Bnd]"

definition zoneIdPattern :: regex where
  "zoneIdPattern = [Bnd, Words [''zone''], Star Space, Grp (One (Chars ''abc'')), Bnd]"

definition maintenancePattern :: regex where
  "maintenancePattern = kwPattern [''maintenance'', ''broken'', ''repair'', ''fix'', ''issue'',
     ''problem'', ''malfunction'']"

definition batteryPattern :: regex where
  "batteryPattern = kwPattern [''battery'', ''charging'', ''energy'', ''power'', ''charge'',
     ''charged'']"

definition statusPattern :: regex where
  "statusPattern = kwPattern [''status'', ''state'', ''condition'', ''health'', ''operational'',
     ''functioning'']"

definition locationPattern :: regex where
  "locationPattern = kwPattern [''where'', ''location'', ''position'', ''find'', ''locate'',
     ''situated'', ''placed'', ''area'', ''coordinate'', ''coordinates'']"

definition efficiencyPattern :: regex where
  "efficiencyPattern = kwPattern [''efficiency'', ''performance'', ''productivity'',
     ''effective'', ''output'', ''throughput'', ''production'', ''optimization'']"

definition overviewPattern :: regex where
  "overviewPattern = kwPattern [''overview'', ''summary'', ''dashboard'', ''stats'',
     ''statistics'', ''brief'', ''snapshot'', ''overall'', ''general'']"

definition toolPattern :: regex where
  "toolPattern = kwPattern [''tool'', ''equipment'', ''attachment'', ''device'', ''implement'',
     ''accessory'', ''apparatus'', ''instrument'']"

definition highestPattern :: regex where
  "highestPattern = kwPattern [''highest'', ''best'', ''most'', ''top'', ''maximum'', ''peak'',
     ''leading'', ''superior'', ''optimal'', ''greatest'']"

definition lowestPattern :: regex where
  "lowestPattern = kwPattern [''lowest'', ''worst'', ''least'', ''bottom'', ''minimum'',
     ''poorest'', ''weakest'', ''inferior'', ''suboptimal'']"

definition idlePattern :: regex where
  "idlePattern = kwPattern [''idle'', ''inactive'', ''available'', ''free'', ''unused'',
     ''standby'', ''waiting'', ''ready'', ''dormant'']"

definition activePattern :: regex where
  "activePattern = kwPattern [''active'', ''busy'', ''working'', ''engaged'', ''occupied'',
     ''operating'', ''running'', ''functioning'', ''in use'']"

definition comparePattern :: regex where
  "comparePattern = kwPattern [''compare'', ''comparison'', ''versus'', ''vs'', ''contrast'',
     ''difference'', ''differential'', ''evaluate'', ''against'', ''between'']"

definition quantifierWords :: "string list" where
  "quantifierWords = [''all'', ''every'', ''list'', ''show'', ''display'', ''each'', ''present'',
     ''total'', ''full'', ''entire'']"

definition allRobotsPattern :: regex where
  "allRobotsPattern = [Bnd, Grp (Words quantifierWords), Plus Space,
     Grp (Words [''robots'', ''amrs'', ''machines'', ''units'', ''devices'']), Bnd]"

definition allZonesPattern :: regex where
  "allZonesPattern = [Bnd, Grp (Words quantifierWords), Plus Space,
     Grp (Words [''zones'', ''areas'', ''sections'', ''sectors'', ''regions'', ''locations'']), Bnd]"

definition sortPattern :: regex where
  "sortPattern = kwPattern [''sort'', ''order'', ''rank'', ''arrange'', ''categorize'',
     ''classify'', ''organize'', ''group'', ''sequence'', ''prioritize'']"

definition countPattern :: regex where
  "countPattern = kwPattern [''count'', ''how many'', ''total number'', ''quantity'', ''sum'',
     ''tally'', ''enumerate'', ''calculate'', ''measure'']"

definition priorityPattern :: regex where
  "priorityPattern = kwPattern [''priority'', ''important'', ''critical'', ''urgent'',
     ''crucial'', ''essential'', ''vital'', ''significance'', ''key'', ''main'']"

definition trafficPattern :: regex where
  "trafficPattern = kwPattern [''traffic'', ''congestion'', ''flow'', ''movement'', ''density'',
     ''crowded'', ''busy'', ''passage'', ''circulation'', ''transit'']"

definition deploymentPattern :: regex where
  "deploymentPattern = kwPattern [''deploy'', ''assign'', ''send'', ''allocate'', ''dispatch'',
     ''direct'', ''relocate'', ''move'', ''transfer'']"

definition redistributePattern :: regex where
  "redistributePattern = kwPattern [''redistribute'', ''reallocate'', ''reassign'', ''balance'',
     ''equilibrium'', ''even out'', ''rebalance'']"

definition optimizePattern :: regex where
  "optimizePattern = kwPattern [''optimize'', ''improve'', ''enhance'', ''boost'', ''maximize'',
     ''augment'', ''upgrade'', ''streamline'', ''refine'']"

definition forecastPattern :: regex where
  "forecastPattern = kwPattern [''forecast'', ''predict'', ''projection'', ''future'',
     ''anticipate'', ''estimate'', ''foresee'', ''outlook'', ''prospect'']"

definition trendPattern :: regex where
  "trendPattern = kwPattern [''trend'', ''pattern'', ''tendency'', ''direction'', ''progression'',
     ''development'', ''evolution'', ''course'']"

definition utilizationPattern :: regex where
  "utilizationPattern = kwPattern [''utilization'', ''usage'', ''consumption'', ''employ'',
     ''use'', ''application'', ''exploitation'']"

definition capacityPattern :: regex where
  "capacityPattern = kwPattern [''capacity'', ''capability'', ''potential'', ''volume'',
     ''throughput'', ''output'', ''productivity'', ''yield'']"

definition schedulePattern :: regex where
  "schedulePattern = kwPattern [''schedule'', ''plan'', ''timetable'', ''agenda'', ''calendar'',
     ''program'', ''arrangement'', ''itinerary'']"

text \<open>The two inline patterns \<open>/(\d+)%/\<close> and \<open>/(\d+)\s+(robots|amrs)/i\<close>.\<close>

definition percentPattern :: regex where
  "percentPattern = [Grp (Plus Digit), Words [''%'']]"

definition robotCountPattern :: regex where
  "robotCountPattern = [Grp (Plus Digit), Plus Space, Grp (Words [''robots'', ''amrs''])]"

text \<open>\<open>match[n]\<close> for a capture group \<open>n \<ge> 1\<close> of a successful match.\<close>

definition capture :: "nat \<Rightarrow> string list \<Rightarrow> string" where
  "capture n caps = (if 0 < n \<and> n \<le> length caps then caps ! (n - 1) else [])"

text \<open>The groups of a match that has been tested to exist.\<close>

definition groups :: "string list option \<Rightarrow> string list" where
  "groups m = (case m of None \<Rightarrow> [] | Some caps \<Rightarrow> caps)"

definition countIf :: "bool \<Rightarrow> nat" where
  "countIf b = (if b then 1 else 0)"

definition patternCount :: "string \<Rightarrow> nat" where
  "patternCount query =
     countIf (rtest robotIdPattern query) + countIf (rtest zoneIdPattern query)
     + countIf (rtest batteryPattern query) + countIf (rtest efficiencyPattern query)
     + countIf (rtest maintenancePattern query) + countIf (rtest toolPattern query)
     + countIf (rtest statusPattern query) + countIf (rtest priorityPattern query)
     + countIf (rtest trafficPattern query) + countIf (rtest comparePattern query)"

definition isComplexQuery :: "string \<Rightarrow> bool" where
  "isComplexQuery query = (3 \<le> patternCount query)"


section \<open>Numbers, arrays and records of JavaScript\<close>

text \<open>
  A quotient of two integers is a rational number, \<open>NaN\<close> or an infinity. The model
  computes with exact rationals; the rounding error of binary floating point is not
  modelled. Only rounded numbers are ever printed.
\<close>

datatype jsnum = Fin rat | NaN | PosInf | NegInf

datatype rnum = RInt int | RNaN | RPosInf | RNegInf

definition jsDiv :: "int \<Rightarrow> int \<Rightarrow> jsnum" where
  "jsDiv a b =
     (if b = 0 then (if a = 0 then NaN else if 0 < a then PosInf else NegInf)
      else Fin (of_int a / of_int b))"

text \<open>An increasing operation such as \<open>x * 100\<close>, \<open>x - 20\<close> or \<open>x / 5\<close>: it acts on a finite
  number and leaves \<open>NaN\<close> and the infinities as they are.\<close>

definition jsMap :: "(rat \<Rightarrow> rat) \<Rightarrow> jsnum \<Rightarrow> jsnum" where
  "jsMap f v = (case v of Fin q \<Rightarrow> Fin (f q) | NaN \<Rightarrow> NaN | PosInf \<Rightarrow> PosInf | NegInf \<Rightarrow> NegInf)"

definition mathRound :: "jsnum \<Rightarrow> rnum" where
  "mathRound v = (case v of Fin q \<Rightarrow> RInt \<lfloor>q + 1 / 2\<rfloor> | NaN \<Rightarrow> RNaN | PosInf \<Rightarrow> RPosInf
     | NegInf \<Rightarrow> RNegInf)"

definition mathCeil :: "jsnum \<Rightarrow> rnum" where
  "mathCeil v = (case v of Fin q \<Rightarrow> RInt \<lceil>q\<rceil> | NaN \<Rightarrow> RNaN | PosInf \<Rightarrow> RPosInf
     | NegInf \<Rightarrow> RNegInf)"

definition jsLess :: "jsnum \<Rightarrow> rat \<Rightarrow> bool" where
  "jsLess v c = (case v of Fin q \<Rightarrow> q < c | NaN \<Rightarrow> False | PosInf \<Rightarrow> False | NegInf \<Rightarrow> True)"

definition showR :: "rnum \<Rightarrow> string" where
  "showR v = (case v of RInt i \<Rightarrow> showInt i | RNaN \<Rightarrow> ''NaN'' | RPosInf \<Rightarrow> ''Infinity''
     | RNegInf \<Rightarrow> ''-Infinity'')"

text \<open>
  \<open>Array.prototype.sort\<close> with a comparator: the sort is stable, \<open>a\<close> is moved behind \<open>b\<close>
  exactly when the comparator is positive on \<open>(a, b)\<close>. Every comparator of the engine
  is a difference of numeric keys (or a lexicographic combination of two), for which the
  sorted array is determined by these two facts.
\<close>

fun insertBy :: "('a \<Rightarrow> 'a \<Rightarrow> 'b::{zero,ord}) \<Rightarrow> 'a \<Rightarrow> 'a list \<Rightarrow> 'a list" where
  "insertBy cmp a [] = [a]"
| "insertBy cmp a (b # bs) = (if 0 < cmp a b then b # insertBy cmp a bs else a # b # bs)"

definition sortBy :: "('a \<Rightarrow> 'a \<Rightarrow> 'b::{zero,ord}) \<Rightarrow> 'a list \<Rightarrow> 'a list" where
  "sortBy cmp xs = foldr (insertBy cmp) xs []"

text \<open>\<open>xs.slice(0, n)\<close> for \<open>n \<ge> 0\<close> is \<open>take n xs\<close>. \<open>xs[0]\<close> of an empty array is
  \<open>undefined\<close>, and reading a field of it throws.\<close>

definition first :: "'a list \<Rightarrow> error + 'a" where
  "first xs = (case xs of [] \<Rightarrow> Inl TypeError | a # _ \<Rightarrow> Inr a)"

text \<open>
  A \<open>Record<string, V>\<close> built by assignments \<open>rec[k] = v\<close>: a new key is appended, an
  existing key keeps its place. Keys are tool names, zone names, zone ids and labels;
  they are taken not to be array indices (which JavaScript enumerates first) nor names of
  members of \<open>Object.prototype\<close>.
\<close>

fun setKey :: "string \<Rightarrow> 'v \<Rightarrow> (string \<times> 'v) list \<Rightarrow> (string \<times> 'v) list" where
  "setKey k v [] = [(k, v)]"
| "setKey k v ((k', v') # m) = (if k' = k then (k, v) # m else (k', v') # setKey k v m)"

definition spread :: "(string \<times> 'v) list \<Rightarrow> (string \<times> 'v) list \<Rightarrow> (string \<times> 'v) list" where
  "spread m1 m2 = foldl (\<lambda>m (k, v). setKey k v m) m1 m2"

definition countTools :: "Robot list \<Rightarrow> (string \<times> nat) list" where
  "countTools rs = foldl (\<lambda>m r. case map_of m (r_currentTool r) of
        None \<Rightarrow> setKey (r_currentTool r) 1 m
      | Some c \<Rightarrow> setKey (r_currentTool r) (c + 1) m) [] rs"

section \<open>Shared rendering\<close>

definition truthy :: "string option \<Rightarrow> bool" where
  "truthy t = (case t of None \<Rightarrow> False | Some s \<Rightarrow> s \<noteq> [])"

definition showNullable :: "string option \<Rightarrow> string" where
  "showNullable t = (case t of None \<Rightarrow> ''null'' | Some s \<Rightarrow> s)"

definition padId :: "nat \<Rightarrow> string" where
  "padId n = padStart2 (showNat n)"

definition taskPhrase :: "Robot \<Rightarrow> string" where
  "taskPhrase r = (if truthy (r_currentTask r) then ''working on '' @ showNullable (r_currentTask r)
     else ''not assigned any tasks'')"

definition countStatus :: "string \<Rightarrow> Robot list \<Rightarrow> nat" where
  "countStatus st rs = length (filter (\<lambda>r. r_status r = st) rs)"

definition sumInts :: "int list \<Rightarrow> int" where
  "sumInts xs = foldl (+) 0 xs"

definition capitalize :: "string \<Rightarrow> string" where
  "capitalize s = toUpperCase (take 1 s) @ drop 1 s"

definition getBatteryStatusDescription :: "int \<Rightarrow> string" where
  "getBatteryStatusDescription level =
     (if level < 10 then ''The battery is critically low and requires immediate charging.''
      else if level < 30 then ''The battery is running low and should be charged soon.''
      else if level < 60 then ''The battery level is moderate.''
      else if level < 80 then ''The battery level is good.''
      else ''The battery is nearly full.'')"

section \<open>Handlers\<close>

definition handleRobotQuery :: "string list \<Rightarrow> string \<Rightarrow> WarehouseDataType \<Rightarrow> error + Result" where
  "handleRobotQuery match query data =
     (let robotId = parseInt (capture 2 match) in
      case getRobotById data robotId of
        None \<Rightarrow>
          reply (''I couldn't find AMR '' @ showNat robotId
                 @ '' in the system. Please check the ID and try again.'')
            ''Robot Not Found'' DNull TyError None
      | Some robot \<Rightarrow>
          if rtest locationPattern query then
            reply (''AMR '' @ padId robotId @ '' is currently located in '' @ r_zoneId robot
                   @ '' at coordinates ('' @ showInt (fst (r_coordinates robot)) @ '', ''
                   @ showInt (snd (r_coordinates robot)) @ '').'')
              (''AMR '' @ padId robotId @ '' Location'') (DRobot robot) TyRobot None
          else if rtest statusPattern query then
            reply (''AMR '' @ padId robotId @ '' is currently '' @ r_status robot
                   @ ''. It has a battery level of '' @ showInt (r_batteryLevel robot)
                   @ ''% and is '' @ taskPhrase robot @ ''.'')
              (''AMR '' @ padId robotId @ '' Status'') (DRobot robot) TyRobot None
          else if rtest batteryPattern query then
            reply (''AMR '' @ padId robotId @ '' currently has a battery level of ''
                   @ showInt (r_batteryLevel robot) @ ''%. ''
                   @ getBatteryStatusDescription (r_batteryLevel robot))
              (''AMR '' @ padId robotId @ '' Battery'') (DRobot robot) TyRobot None
          else if rtest toolPattern query then
            reply (''AMR '' @ padId robotId @ '' is currently equipped with the ''
                   @ r_currentTool robot @ '' tool and is ''
                   @ (if r_status robot = ''active'' then ''actively using it for''
                      else ''assigned to use it for'')
                   @ '' '' @ showNullable (r_currentTask robot) @ ''.'')
              (''AMR '' @ padId robotId @ '' Equipment'') (DRobot robot) TyRobot None
          else
            reply (''AMR '' @ padId robotId @ '' is a '' @ r_status robot @ '' robot in ''
                   @ r_zoneId robot @ ''. It has a battery level of ''
                   @ showInt (r_batteryLevel robot) @ ''% and is currently ''
                   @ taskPhrase robot @ ''.'')
              (''AMR '' @ padId robotId @ '' Information'') (DRobot robot) TyRobot None)"

definition handleZoneQuery :: "string list \<Rightarrow> string \<Rightarrow> WarehouseDataType \<Rightarrow> error + Result" where
  "handleZoneQuery match query data =
     (let zoneId = ''Zone '' @ toUpperCase (capture 1 match) in
      case getZoneById data zoneId of
        None \<Rightarrow>
          reply (''I couldn't find '' @ zoneId
                 @ '' in the system. Available zones are Zone A, Zone B, and Zone C.'')
            ''Zone Not Found'' DNull TyError None
      | Some zone \<Rightarrow>
          if rtest robotIdPattern query \<or> includesStr query ''robots'' \<or> includesStr query ''amrs''
          then
            (let zoneRobots = filter (\<lambda>r. r_zoneId r = zoneId) (robots data);
                 robotInfo =
                   (if 0 < length zoneRobots then
                      ''There are '' @ showNat (length zoneRobots) @ '' AMRs in this zone: ''
                      @ join '', '' (map (\<lambda>r. ''AMR '' @ showNat (r_id r)) zoneRobots) @ ''.''
                    else ''There are currently no AMRs operating in this zone.'')
             in reply (zoneId @ '' currently has '' @ showInt (z_robotCount zone)
                       @ '' active AMRs. '' @ robotInfo @ '' The zone has ''
                       @ showInt (z_tasksPending zone) @ '' pending tasks and ''
                       @ showInt (z_tasksCompleted zone) @ '' completed tasks.'')
                  (zoneId @ '' Robots'') (DZone zone) TyZone None)
          else if rtest efficiencyPattern query then
            reply (zoneId @ '' is currently operating at '' @ showInt (z_efficiency zone)
                   @ ''% efficiency. This zone has a '' @ z_trafficDensity zone
                   @ '' traffic density and '' @ showInt (z_tasksPending zone)
                   @ '' pending tasks.'')
              (zoneId @ '' Efficiency'') (DZone zone) TyZone None
          else
            reply (zoneId @ '' is a '' @ z_priority zone @ '' priority zone with ''
                   @ showInt (z_robotCount zone) @ '' active AMRs. The zone has ''
                   @ showInt (z_tasksPending zone) @ '' pending tasks, ''
                   @ showInt (z_tasksCompleted zone)
                   @ '' completed tasks, and is operating at '' @ showInt (z_efficiency zone)
                   @ ''% efficiency with '' @ z_trafficDensity zone @ '' traffic density.'')
              (zoneId @ '' Status'') (DZone zone) TyZone None)"

definition statusChart :: "Robot list \<Rightarrow> (string \<times> int) list" where
  "statusChart rs =
     [(''Active'', int (countStatus ''active'' rs)), (''Idle'', int (countStatus ''idle'' rs)),
      (''Charging'', int (countStatus ''charging'' rs)),
      (''Maintenance'', int (countStatus ''maintenance'' rs))]"

definition handleOverviewQuery :: "string \<Rightarrow> WarehouseDataType \<Rightarrow> error + Result" where
  "handleOverviewQuery query data =
     (let ov = overview data; rs = robots data; zs = zones data;
          maintenanceCount = countStatus ''maintenance'' rs;
          totalPendingTasks = sumInts (map z_tasksPending zs);
          highTrafficZones = length (filter (\<lambda>z. z_trafficDensity z = ''high'') zs);
          insights =
            [showInt (o_activeRobots ov) @ '' out of '' @ showInt (o_totalRobots ov)
               @ '' AMRs are currently active'',
             ''Overall warehouse efficiency is at '' @ showInt (o_robotEfficiency ov) @ ''%'',
             showInt totalPendingTasks @ '' tasks are currently pending across all zones'',
             showNat highTrafficZones @ '' zones have high traffic density'',
             showNat maintenanceCount @ '' AMRs are currently in maintenance'']
      in reply (''The warehouse currently has '' @ showInt (o_activeRobots ov)
                @ '' active AMRs out of a total of '' @ showInt (o_totalRobots ov)
                @ ''. The overall robot efficiency is '' @ showInt (o_robotEfficiency ov)
                @ ''% with '' @ showInt (o_tasksCompleted ov) @ '' tasks completed today.'')
           ''Warehouse Overview'' (DOverview ov) TyOverview
           (Some (noMeta\<lparr>secondaryData := Some (SLines insights),
                         chartData := Some (statusChart rs)\<rparr>)))"


definition chartOf :: "(string \<times> int) list \<Rightarrow> (string \<times> int) list" where
  "chartOf entries = foldl (\<lambda>m (k, v). setKey k v m) [] entries"

definition handleEfficiencyQuery :: "string \<Rightarrow> WarehouseDataType \<Rightarrow> error + Result" where
  "handleEfficiencyQuery query data =
     (let rs = robots data; zs = zones data; ov = overview data;
          aboutRobots = (includesStr query ''robot'' \<or> includesStr query ''amr'')
      in
      if rtest highestPattern query \<and> aboutRobots then
        (case first (sortBy (\<lambda>a b. r_efficiency b - r_efficiency a) rs) of
           Inl e \<Rightarrow> Inl e
         | Inr topRobot \<Rightarrow>
             reply (''The most efficient robot is AMR '' @ showNat (r_id topRobot)
                    @ '' with an efficiency rating of '' @ showInt (r_efficiency topRobot)
                    @ ''%. It's currently '' @ r_status topRobot @ '' in '' @ r_zoneId topRobot
                    @ ''.'')
               ''Most Efficient Robot'' (DRobot topRobot) TyRobot None)
      else if rtest lowestPattern query \<and> aboutRobots then
        (case first (sortBy (\<lambda>a b. r_efficiency a - r_efficiency b) rs) of
           Inl e \<Rightarrow> Inl e
         | Inr bottomRobot \<Rightarrow>
             reply (''The least efficient robot is AMR '' @ showNat (r_id bottomRobot)
                    @ '' with an efficiency rating of '' @ showInt (r_efficiency bottomRobot)
                    @ ''%. It's currently '' @ r_status bottomRobot @ '' in ''
                    @ r_zoneId bottomRobot @ ''.'')
               ''Least Efficient Robot'' (DRobot bottomRobot) TyRobot None)
      else if rtest highestPattern query \<and> includesStr query ''zone'' then
        (case first (sortBy (\<lambda>a b. z_efficiency b - z_efficiency a) zs) of
           Inl e \<Rightarrow> Inl e
         | Inr topZone \<Rightarrow>
             reply (''The most efficient zone is '' @ z_name topZone
                    @ '' with an efficiency rating of '' @ showInt (z_efficiency topZone)
                    @ ''%. It has '' @ showInt (z_robotCount topZone) @ '' active AMRs and ''
                    @ showInt (z_tasksPending topZone) @ '' pending tasks.'')
               ''Most Efficient Zone'' (DZone topZone) TyZone None)
      else if rtest lowestPattern query \<and> includesStr query ''zone'' then
        (case first (sortBy (\<lambda>a b. z_efficiency a - z_efficiency b) zs) of
           Inl e \<Rightarrow> Inl e
         | Inr bottomZone \<Rightarrow>
             reply (''The least efficient zone is '' @ z_name bottomZone
                    @ '' with an efficiency rating of '' @ showInt (z_efficiency bottomZone)
                    @ ''%. It has '' @ showInt (z_robotCount bottomZone) @ '' active AMRs and ''
                    @ showInt (z_tasksPending bottomZone) @ '' pending tasks.'')
               ''Least Efficient Zone'' (DZone bottomZone) TyZone None)
      else
        (let sortedRobots = sortBy (\<lambda>a b. r_efficiency b - r_efficiency a) rs;
             sortedZones = sortBy (\<lambda>a b. z_efficiency b - z_efficiency a) zs;
             topRobots = chartOf (map (\<lambda>r. (''AMR '' @ showNat (r_id r), r_efficiency r))
                                   (take 5 sortedRobots));
             topZones = chartOf (map (\<lambda>z. (z_name z, z_efficiency z)) sortedZones)
         in case first sortedZones of
              Inl e \<Rightarrow> Inl e
            | Inr z0 \<Rightarrow>
               (case first sortedRobots of
                  Inl e \<Rightarrow> Inl e
                | Inr r0 \<Rightarrow>
                    reply (''The overall warehouse efficiency is ''
                           @ showInt (o_robotEfficiency ov) @ ''%. The most efficient zone is ''
                           @ z_name z0 @ '' at '' @ showInt (z_efficiency z0)
                           @ ''% and the most efficient AMR is AMR '' @ showNat (r_id r0)
                           @ '' at '' @ showInt (r_efficiency r0) @ ''%.'')
                      ''Efficiency Analysis'' (DRobots sortedRobots) TyComparison
                      (Some (noMeta\<lparr>comparisonType := Some ''Efficiency'',
                                    metricName := Some ''Efficiency'',
                                    chartData := Some (spread topRobots topZones)\<rparr>)))))"

definition handleStatusQuery :: "string \<Rightarrow> WarehouseDataType \<Rightarrow> error + Result" where
  "handleStatusQuery query data =
     (let rs = robots data; ov = overview data in
      if rtest idlePattern query then
        (case filter (\<lambda>r. r_status r = ''idle'') rs of
           [] \<Rightarrow>
             reply ''There are currently no idle AMRs in the warehouse. All robots are actively engaged in tasks.''
               ''Idle AMRs'' DNull TyError None
         | firstIdleRobot # others \<Rightarrow>
             reply (''There are '' @ showNat (length (firstIdleRobot # others))
                    @ '' idle AMRs in the warehouse. AMR '' @ showNat (r_id firstIdleRobot)
                    @ '' is currently idle in '' @ r_zoneId firstIdleRobot @ ''.'')
               ''Idle AMR Status'' (DRobot firstIdleRobot) TyRobot None)
      else if rtest activePattern query then
        (case filter (\<lambda>r. r_status r = ''active'') rs of
           [] \<Rightarrow>
             reply ''There are currently no active AMRs in the warehouse. Most robots may be charging or in maintenance.''
               ''Active AMRs'' DNull TyError None
         | firstActiveRobot # others \<Rightarrow>
             reply (''There are '' @ showNat (length (firstActiveRobot # others))
                    @ '' active AMRs in the warehouse. AMR '' @ showNat (r_id firstActiveRobot)
                    @ '' is currently active in '' @ r_zoneId firstActiveRobot
                    @ '', working on '' @ showNullable (r_currentTask firstActiveRobot) @ ''.'')
               ''Active AMR Status'' (DRobot firstActiveRobot) TyRobot None)
      else
        reply (''The warehouse currently has '' @ showInt (o_activeRobots ov)
               @ '' active AMRs out of '' @ showInt (o_totalRobots ov) @ '' total. ''
               @ showNat (countStatus ''charging'' rs) @ '' are charging, ''
               @ showNat (countStatus ''maintenance'' rs) @ '' are in maintenance, and ''
               @ showNat (countStatus ''idle'' rs) @ '' are idle.'')
          ''AMR Status Overview'' (DRobots rs) TyMultiRobot
          (Some (noMeta\<lparr>metricName := Some ''Status Distribution'',
                        chartData := Some (statusChart rs)\<rparr>)))"

definition handleMaintenanceQuery :: "string \<Rightarrow> WarehouseDataType \<Rightarrow> error + Result" where
  "handleMaintenanceQuery query data =
     (case filter (\<lambda>r. r_status r = ''maintenance'') (robots data) of
        [] \<Rightarrow>
          reply ''There are currently no AMRs in maintenance. All robots are operational.''
            ''Maintenance Status'' DNull TyError None
      | firstMaintenanceRobot # others \<Rightarrow>
          reply (''There are '' @ showNat (length (firstMaintenanceRobot # others))
                 @ '' AMRs currently undergoing maintenance. AMR ''
                 @ showNat (r_id firstMaintenanceRobot) @ '' is in maintenance in ''
                 @ r_zoneId firstMaintenanceRobot @ ''.'')
            ''Maintenance Status'' (DRobot firstMaintenanceRobot) TyRobot None)"

definition batteryLevels :: "Robot list \<Rightarrow> (string \<times> int) list" where
  "batteryLevels rs =
     [(''Critical (0-20%)'', int (length (filter (\<lambda>r. r_batteryLevel r < 20) rs))),
      (''Low (20-40%)'',
         int (length (filter (\<lambda>r. 20 \<le> r_batteryLevel r \<and> r_batteryLevel r < 40) rs))),
      (''Medium (40-60%)'',
         int (length (filter (\<lambda>r. 40 \<le> r_batteryLevel r \<and> r_batteryLevel r < 60) rs))),
      (''Good (60-80%)'',
         int (length (filter (\<lambda>r. 60 \<le> r_batteryLevel r \<and> r_batteryLevel r < 80) rs))),
      (''Full (80-100%)'', int (length (filter (\<lambda>r. 80 \<le> r_batteryLevel r) rs)))]"

definition handleBatteryQuery :: "string \<Rightarrow> WarehouseDataType \<Rightarrow> error + Result" where
  "handleBatteryQuery query data =
     (let rs = robots data in
      if rtest lowestPattern query then
        (case first (sortBy (\<lambda>a b. r_batteryLevel a - r_batteryLevel b) rs) of
           Inl e \<Rightarrow> Inl e
         | Inr lowestBatteryRobot \<Rightarrow>
             reply (''AMR '' @ showNat (r_id lowestBatteryRobot) @ '' has the lowest battery at ''
                    @ showInt (r_batteryLevel lowestBatteryRobot) @ ''%. ''
                    @ getBatteryStatusDescription (r_batteryLevel lowestBatteryRobot))
               ''Lowest Battery AMR'' (DRobot lowestBatteryRobot) TyRobot None)
      else if includesStr query ''charging'' then
        (case filter (\<lambda>r. r_status r = ''charging'') rs of
           [] \<Rightarrow>
             reply ''There are currently no AMRs charging. All robots are either active, idle, or in maintenance.''
               ''Charging Status'' DNull TyError None
         | firstChargingRobot # others \<Rightarrow>
             reply (''There are '' @ showNat (length (firstChargingRobot # others))
                    @ '' AMRs currently charging. AMR '' @ showNat (r_id firstChargingRobot)
                    @ '' is charging in '' @ r_zoneId firstChargingRobot @ '' at ''
                    @ showInt (r_batteryLevel firstChargingRobot) @ ''%.'')
               ''Charging Status'' (DRobot firstChargingRobot) TyRobot None)
      else
        (let averageBattery =
               mathRound (jsDiv (sumInts (map r_batteryLevel rs)) (int (length rs)));
             criticalBatteryRobots = length (filter (\<lambda>r. r_batteryLevel r < 20) rs);
             sortedByBattery = sortBy (\<lambda>a b. r_batteryLevel b - r_batteryLevel a) rs
         in reply (''The average battery level across all AMRs is '' @ showR averageBattery
                   @ ''%. There are '' @ showNat criticalBatteryRobots
                   @ '' robots with critical battery levels (below 20%).'')
              ''Battery Overview'' (DRobots sortedByBattery) TyMultiRobot
              (Some (noMeta\<lparr>metricName := Some ''Battery Levels'',
                            chartData := Some (batteryLevels rs)\<rparr>))))"

definition robotsIn :: "Robot list \<Rightarrow> string \<Rightarrow> Robot list" where
  "robotsIn rs zid = filter (\<lambda>r. r_zoneId r = zid) rs"

definition handleMultiRobotLocationQuery :: "string \<Rightarrow> WarehouseDataType \<Rightarrow> error + Result" where
  "handleMultiRobotLocationQuery query data =
     (let rs = robots data; zs = zones data;
          robotsByZone = map (\<lambda>z. (z, robotsIn rs (z_id z))) zs;
          distributionByZone = chartOf (map (\<lambda>z. (z_name z, int (length (robotsIn rs (z_id z))))) zs)
      in case first (sortBy (\<lambda>a b. int (length (snd b)) - int (length (snd a))) robotsByZone) of
           Inl e \<Rightarrow> Inl e
         | Inr zoneWithMostRobots \<Rightarrow>
             reply (''Most AMRs are currently in '' @ z_name (fst zoneWithMostRobots) @ '' (''
                    @ showNat (length (snd zoneWithMostRobots)) @ '' robots). ''
                    @ join '', '' (map (\<lambda>z. z_name z @ '': ''
                                         @ showNat (length (robotsIn rs (z_id z))) @ '' AMRs'') zs)
                    @ ''.'')
               ''Robot Locations'' (DRobots rs) TyMultiRobot
               (Some (noMeta\<lparr>metricName := Some ''Zone Distribution'',
                             chartData := Some distributionByZone\<rparr>)))"


text \<open>\<open>Math.round(a / b)\<close> for \<open>b \<noteq> 0\<close>.\<close>

definition roundQuot :: "int \<Rightarrow> int \<Rightarrow> int" where
  "roundQuot a b = \<lfloor>(of_int a / of_int b :: rat) + 1 / 2\<rfloor>"

text \<open>\<open>s.split('\n\n')\<close>, with the text before the current position accumulated in
  reverse.\<close>

fun splitParagraphs :: "string \<Rightarrow> string \<Rightarrow> string list" where
  "splitParagraphs cur [] = [rev cur]"
| "splitParagraphs cur [c] = [rev (c # cur)]"
| "splitParagraphs cur (c # d # s) =
     (if c = CHR ''\<newline>'' \<and> d = CHR ''\<newline>'' then rev cur # splitParagraphs [] s
      else splitParagraphs (c # cur) (d # s))"

definition toolTerms :: "string list" where
  "toolTerms = [''forklift'', ''gripper'', ''conveyor'', ''scanner'', ''lift'', ''arm'', ''vacuum'']"

definition threshold :: "nat \<Rightarrow> string \<Rightarrow> nat" where
  "threshold dflt query =
     (case rmatch percentPattern query of None \<Rightarrow> dflt | Some m \<Rightarrow> parseInt (capture 1 m))"

definition robotBatteryChart :: "Robot list \<Rightarrow> (string \<times> int) list" where
  "robotBatteryChart rs = chartOf (map (\<lambda>r. (''AMR '' @ showNat (r_id r), r_batteryLevel r)) rs)"

definition efficiencyRecommendations :: string where
  "efficiencyRecommendations =
     ''\<newline>Efficiency Recommendations:\<newline>''
     @ ''- Redistribute AMRs from low-task zones to high-priority zones\<newline>''
     @ ''- Prioritize charging for AMRs with battery levels between 30-40%\<newline>''
     @ ''- Swap tools to match the most common tasks in each zone\<newline>''"

definition handleComplexQuery :: "string \<Rightarrow> WarehouseDataType \<Rightarrow> error + Result" where
  "handleComplexQuery query data =
     (let rs = robots data; zs = zones data; ov = overview data;
          zoneMatch = rmatch zoneIdPattern query
      in
      if zoneMatch \<noteq> None \<and> rtest batteryPattern query \<and> rtest efficiencyPattern query then
        (let zoneId = ''Zone '' @ toUpperCase (capture 1 (groups zoneMatch)) in
         case getZoneById data zoneId of
           None \<Rightarrow>
             reply (''I couldn't find '' @ zoneId @ '' in the system.'')
               ''Zone Not Found'' DNull TyError None
         | Some zone \<Rightarrow>
            (let efficiencyThreshold = threshold 70 query;
                 zoneRobots = filter (\<lambda>r. r_zoneId r = zoneId
                                          \<and> r_efficiency r < int efficiencyThreshold) rs
             in
             if length zoneRobots = 0 then
               reply (''There are no AMRs in '' @ zoneId @ '' with efficiency below ''
                      @ showNat efficiencyThreshold @ ''%.'')
                 (zoneId @ '' Battery Analysis'') (DRobots []) TyMultiRobot None
             else
               (let sortedRobots = sortBy (\<lambda>a b. r_batteryLevel a - r_batteryLevel b) zoneRobots
                in reply (''In '' @ zoneId @ '', '' @ showNat (length sortedRobots)
                          @ '' AMRs have efficiency below '' @ showNat efficiencyThreshold
                          @ ''%. Their battery levels range from ''
                          @ showInt (r_batteryLevel (hd sortedRobots)) @ ''% to ''
                          @ showInt (r_batteryLevel (last sortedRobots)) @ ''%.'')
                     (zoneId @ '' Low Efficiency AMRs - Battery Analysis'')
                     (DRobots sortedRobots) TyMultiRobot
                     (Some (noMeta\<lparr>metricName := Some ''Battery Level'',
                                   chartData := Some (robotBatteryChart sortedRobots)\<rparr>)))))
      else if rtest toolPattern query \<and> rtest batteryPattern query then
        (let toolName = (case find (\<lambda>term. includesStr query term) toolTerms of
                           None \<Rightarrow> ''forklift'' | Some term \<Rightarrow> term);
             batteryThreshold = threshold 50 query;
             matchingRobots = filter (\<lambda>r. includesStr (toLowerCase (r_currentTool r)) toolName
                                          \<and> r_batteryLevel r < int batteryThreshold) rs
         in
         if length matchingRobots = 0 then
           reply (''No AMRs with the '' @ toolName @ '' tool have battery levels below ''
                  @ showNat batteryThreshold @ ''%.'')
             (capitalize toolName @ '' Tool Users'') (DRobots []) TyMultiRobot None
         else
           reply (showNat (length matchingRobots) @ '' AMRs are using the '' @ toolName
                  @ '' tool and have battery levels below '' @ showNat batteryThreshold @ ''%: ''
                  @ join '', '' (map (\<lambda>r. ''AMR '' @ showNat (r_id r) @ '' (''
                                       @ showInt (r_batteryLevel r) @ ''%)'') matchingRobots)
                  @ ''.'')
             (capitalize toolName @ '' Tool Users - Low Battery'')
             (DRobots matchingRobots) TyMultiRobot
             (Some (noMeta\<lparr>metricName := Some ''Battery Level'',
                           chartData := Some (robotBatteryChart matchingRobots)\<rparr>)))
      else if rtest comparePattern query \<and> zoneMatch \<noteq> None \<and> rtest efficiencyPattern query then
        (let toolFilter = (if rtest toolPattern query
                           then find (\<lambda>term. includesStr query term) toolTerms else None);
             filteredRobots = (\<lambda>z. case toolFilter of
                 None \<Rightarrow> robotsIn rs (z_id z)
               | Some t \<Rightarrow> filter (\<lambda>r. includesStr (toLowerCase (r_currentTool r)) t)
                            (robotsIn rs (z_id z)));
             zoneRobotCounts = chartOf (map (\<lambda>z. (z_name z, int (length (filteredRobots z)))) zs);
             zoneEfficiencies = chartOf (map (\<lambda>z. (z_name z,
                 if 0 < length (filteredRobots z)
                 then roundQuot (sumInts (map r_efficiency (filteredRobots z)))
                        (int (length (filteredRobots z)))
                 else 0)) zs);
             toolMessage = (case toolFilter of None \<Rightarrow> [] | Some t \<Rightarrow> '' using '' @ t @ '' tools'');
             msg = ''Zone efficiency comparison for AMRs'' @ toolMessage @ '':\<newline>''
                   @ concat (map (\<lambda>(zoneName, efficiency).
                        ''- '' @ zoneName @ '': '' @ showInt efficiency @ ''% efficiency (''
                        @ (case map_of zoneRobotCounts zoneName of None \<Rightarrow> ''undefined''
                           | Some n \<Rightarrow> showInt n) @ '' AMRs''
                        @ toolMessage @ '')\<newline>'') zoneEfficiencies)
         in reply (trim msg)
              (''Zone Efficiency Comparison''
               @ (case toolFilter of None \<Rightarrow> [] | Some t \<Rightarrow> '' - '' @ t @ '' Tools''))
              (DZones zs) TyComparison
              (Some (noMeta\<lparr>comparisonType := Some ''Zone'', metricName := Some ''Efficiency'',
                            chartData := Some zoneEfficiencies\<rparr>)))
      else
        (let hasBattery = rtest batteryPattern query;
             hasEfficiency = rtest efficiencyPattern query;
             hasMaintenance = rtest maintenancePattern query;
             hasZone = (zoneMatch \<noteq> None);
             robotMatch = rmatch robotIdPattern query;
             hasRobot = (robotMatch \<noteq> None);
             intro = ''Based on your complex query, here's a comprehensive analysis:\<newline>\<newline>'';
             (ttl, body) =
               (if hasZone then
                  (let zoneId = ''Zone '' @ toUpperCase (capture 1 (groups zoneMatch)) in
                   case getZoneById data zoneId of
                     None \<Rightarrow> (''Comprehensive Analysis'', intro)
                   | Some zone \<Rightarrow>
                       (z_name zone @ '' Analysis'',
                        intro @ z_name zone @ '' is a '' @ z_priority zone
                        @ '' priority zone with '' @ showInt (z_robotCount zone)
                        @ '' active AMRs and '' @ showInt (z_tasksPending zone)
                        @ '' pending tasks.\<newline>\<newline>''
                        @ (let zoneRobots = robotsIn rs zoneId in
                           if 0 < length zoneRobots then
                             ''AMRs in this zone:\<newline>''
                             @ concat (map (\<lambda>r. ''- AMR '' @ showNat (r_id r) @ '': '' @ r_status r
                                  @ '', '' @ showInt (r_batteryLevel r) @ ''% battery, using ''
                                  @ r_currentTool r @ '' tool\<newline>'') zoneRobots)
                           else [])))
                else if hasRobot then
                  (case getRobotById data (parseInt (capture 2 (groups robotMatch))) of
                     None \<Rightarrow> (''Comprehensive Analysis'', intro)
                   | Some robot \<Rightarrow>
                       (''AMR '' @ showNat (r_id robot) @ '' Analysis'',
                        intro @ ''AMR '' @ showNat (r_id robot) @ '' is a '' @ r_status robot
                        @ '' robot in '' @ r_zoneId robot @ '' with ''
                        @ showInt (r_batteryLevel robot) @ ''% battery.\<newline>''
                        @ ''It's using a '' @ r_currentTool robot @ '' tool and currently ''
                        @ taskPhrase robot @ ''.\<newline>''
                        @ ''This robot is operating at '' @ showInt (r_efficiency robot)
                        @ ''% efficiency.\<newline>\<newline>''))
                else
                  (''Comprehensive Analysis'',
                   intro @ ''Warehouse Overview:\<newline>''
                   @ ''- '' @ showInt (o_activeRobots ov) @ '' active AMRs out of ''
                   @ showInt (o_totalRobots ov) @ '' total\<newline>''
                   @ ''- Overall efficiency: '' @ showInt (o_robotEfficiency ov) @ ''%\<newline>''
                   @ ''- Tasks completed today: '' @ showInt (o_tasksCompleted ov)
                   @ ''\<newline>\<newline>''
                   @ (let highPriorityZones = filter (\<lambda>z. z_priority z = ''high'') zs in
                      if 0 < length highPriorityZones then
                        ''High Priority Zones: '' @ join '', '' (map z_name highPriorityZones)
                        @ ''\<newline>''
                      else [])
                   @ (let lowBatteryRobots = filter (\<lambda>r. r_batteryLevel r < 30) rs in
                      if hasBattery \<and> 0 < length lowBatteryRobots then
                        ''\<newline>Critical Battery Levels:\<newline>''
                        @ concat (map (\<lambda>r. ''- AMR '' @ showNat (r_id r) @ '': ''
                             @ showInt (r_batteryLevel r) @ ''% battery in '' @ r_zoneId r
                             @ ''\<newline>'') lowBatteryRobots)
                      else [])
                   @ (let maintenanceRobots = filter (\<lambda>r. r_status r = ''maintenance'') rs in
                      if hasMaintenance \<and> 0 < length maintenanceRobots then
                        ''\<newline>Robots in Maintenance:\<newline>''
                        @ concat (map (\<lambda>r. ''- AMR '' @ showNat (r_id r) @ '' in '' @ r_zoneId r
                             @ ''\<newline>'') maintenanceRobots)
                      else [])));
             analysisMessage = body @ (if hasEfficiency then efficiencyRecommendations else [])
         in reply (trim analysisMessage) ttl
              (if hasZone then DZones zs else if hasRobot then DRobots rs else DOverview ov)
              (if hasZone then TyMultiZone else if hasRobot then TyMultiRobot else TyOverview)
              (Some (noMeta\<lparr>secondaryData :=
                              Some (SLines (splitParagraphs [] analysisMessage))\<rparr>))))"


text \<open>
  The redistribution loops. The robots of a snapshot are distinct objects, so
  \<open>sourceRobots.indexOf(robot)\<close> is the index the iteration is at: the loop removes the
  element it is visiting and then advances its index, which skips the next element.
\<close>

definition removeAt :: "nat \<Rightarrow> 'a list \<Rightarrow> 'a list" where
  "removeAt i xs = take i xs @ drop (Suc i) xs"

function moveLoop :: "string \<Rightarrow> string \<Rightarrow> Robot list \<Rightarrow> nat \<Rightarrow> string list
    \<Rightarrow> Robot list \<times> string list \<times> bool" where
  "moveLoop sourceZoneId targetZoneId sourceRobots i plan =
     (if i < length sourceRobots then
        (let robot = sourceRobots ! i;
             plan' = plan @ [''Move AMR '' @ showNat (r_id robot) @ '' from '' @ sourceZoneId
                             @ '' to '' @ targetZoneId];
             sourceRobots' = removeAt i sourceRobots
         in if 2 \<le> length (filter (\<lambda>p. includesStr p targetZoneId) plan')
            then (sourceRobots', plan', True)
            else if length sourceRobots' = 0 then (sourceRobots', plan', False)
            else moveLoop sourceZoneId targetZoneId sourceRobots' (Suc i) plan')
      else (sourceRobots, plan, False))"
  by pat_completeness auto
termination
  by (relation "measure (\<lambda>(s, t, rs, i, p). length rs - i)") (auto simp: removeAt_def)

text \<open>One source zone against the target zones that were open when the loop over
  \<open>Object.keys(targetZones)\<close> began; a target that has received two moves is deleted.\<close>

fun targetLoop :: "string \<Rightarrow> string list \<Rightarrow> Robot list \<Rightarrow> string list \<Rightarrow> string list
    \<Rightarrow> string list \<times> string list" where
  "targetLoop sourceZoneId [] sourceRobots plan targets = (plan, targets)"
| "targetLoop sourceZoneId (targetZoneId # more_targets) sourceRobots plan targets =
     (case moveLoop sourceZoneId targetZoneId sourceRobots 0 plan of
        (sourceRobots', plan', full) \<Rightarrow>
          (let targets' = (if full then filter (\<lambda>t. t \<noteq> targetZoneId) targets else targets)
           in if length sourceRobots' = 0 then (plan', targets')
              else targetLoop sourceZoneId more_targets sourceRobots' plan' targets'))"

fun sourceLoop :: "(string \<times> Robot list) list \<Rightarrow> string list \<Rightarrow> string list \<Rightarrow> string list" where
  "sourceLoop [] plan targets = plan"
| "sourceLoop ((sourceZoneId, sourceRobots) # more_sources) plan targets =
     (case targetLoop sourceZoneId targets sourceRobots plan targets of
        (plan', targets') \<Rightarrow> sourceLoop more_sources plan' targets')"

definition redistributableRobots :: "Robot list \<Rightarrow> Zone list \<Rightarrow> (string \<times> Robot list) list" where
  "redistributableRobots rs lowPriorityZones =
     foldl (\<lambda>m lowZone.
        (let zoneRobots = filter (\<lambda>r. r_zoneId r = z_id lowZone \<and> r_status r \<noteq> ''maintenance'') rs
         in if 1 < length zoneRobots
            then setKey (z_id lowZone) (take (length zoneRobots - 1) zoneRobots) m else m))
       [] lowPriorityZones"

definition targetZoneIds :: "Zone list \<Rightarrow> string list" where
  "targetZoneIds highPriorityZones =
     map fst (foldl (\<lambda>m highZone. setKey (z_id highZone) highZone m) [] highPriorityZones)"

text \<open>The general recommendation: every high-task zone takes the first two robots that
  are still idle.\<close>

fun deployLoop :: "Zone list \<Rightarrow> Robot list \<Rightarrow> string list \<Rightarrow> string list" where
  "deployLoop [] idleRobots plans = plans"
| "deployLoop (zone # more_zones) idleRobots plans =
     (let availableRobots = take 2 idleRobots;
          plans' = plans @ map (\<lambda>robot. ''Deploy AMR '' @ showNat (r_id robot) @ '' to ''
                      @ z_name zone @ '' to help with '' @ showInt (z_tasksPending zone)
                      @ '' pending tasks'') availableRobots;
          idleRobots' = drop (length availableRobots) idleRobots
      in if length idleRobots' = 0 then plans' else deployLoop more_zones idleRobots' plans')"

definition availableFor :: "WarehouseDataType \<Rightarrow> string \<Rightarrow> Robot \<Rightarrow> bool" where
  "availableFor data zoneId r =
     (r_status r = ''idle''
      \<or> (r_status r \<noteq> ''maintenance'' \<and> r_zoneId r \<noteq> zoneId
          \<and> (case getZoneById data (r_zoneId r) of None \<Rightarrow> True
              | Some z \<Rightarrow> z_priority z \<noteq> ''high'')))"

definition deployOrder :: "Robot \<Rightarrow> Robot \<Rightarrow> int" where
  "deployOrder a b =
     (if r_status a = ''idle'' \<and> r_status b \<noteq> ''idle'' then - 1
      else if r_status a \<noteq> ''idle'' \<and> r_status b = ''idle'' then 1
      else r_batteryLevel b - r_batteryLevel a)"

definition requestedCount :: "string \<Rightarrow> nat" where
  "requestedCount query =
     (case rmatch robotCountPattern query of None \<Rightarrow> 2 | Some m \<Rightarrow> parseInt (capture 1 m))"

text \<open>The candidates for a deployment to \<open>zoneId\<close>, and the robots chosen among them:
  the candidates sorted by \<open>deployOrder\<close>, cut to the requested count.\<close>

definition availableRobots :: "WarehouseDataType \<Rightarrow> string \<Rightarrow> Robot list" where
  "availableRobots data zoneId = filter (availableFor data zoneId) (robots data)"

definition deployableRobots :: "string \<Rightarrow> WarehouseDataType \<Rightarrow> string \<Rightarrow> Robot list" where
  "deployableRobots query data zoneId =
     take (requestedCount query) (sortBy deployOrder (availableRobots data zoneId))"

definition handleDeploymentQuery :: "string \<Rightarrow> WarehouseDataType \<Rightarrow> error + Result" where
  "handleDeploymentQuery query data =
     (let rs = robots data; zs = zones data; zoneMatch = rmatch zoneIdPattern query in
      if zoneMatch \<noteq> None then
        (let zoneId = ''Zone '' @ toUpperCase (capture 1 (groups zoneMatch)) in
         case getZoneById data zoneId of
           None \<Rightarrow>
             reply (''I couldn't find '' @ zoneId @ '' in the system.'')
               ''Zone Not Found'' DNull TyError None
         | Some zone \<Rightarrow>
            (if length (availableRobots data zoneId) = 0 then
               reply (''There are no available AMRs to deploy to '' @ zoneId
                      @ ''. All AMRs are either in high priority zones or in maintenance.'')
                 (''Deployment to '' @ zoneId) DNull TyError None
             else
               (let chosen = deployableRobots query data zoneId
                in reply (''I can deploy '' @ showNat (length chosen) @ '' AMRs to ''
                          @ zoneId @ '': ''
                          @ join '', '' (map (\<lambda>r. ''AMR '' @ showNat (r_id r) @ '' (''
                               @ showInt (r_batteryLevel r) @ ''% battery, currently ''
                               @ r_status r
                               @ (if r_status r \<noteq> ''idle'' then '' in '' @ r_zoneId r else [])
                               @ '')'') chosen)
                          @ ''.'')
                     (''Deployment Plan for '' @ zoneId) (DRobots chosen) TyMultiRobot
                     (Some (noMeta\<lparr>secondaryData := Some (SLines
                        [''Target zone: '' @ zoneId @ '' ('' @ z_priority zone @ '' priority)'',
                         ''Current robot count: '' @ showInt (z_robotCount zone),
                         ''Pending tasks: '' @ showInt (z_tasksPending zone),
                         ''Traffic density: '' @ z_trafficDensity zone])\<rparr>)))))
      else if rtest redistributePattern query then
        (let highPriorityZones = filter (\<lambda>z. z_priority z = ''high'' \<and> 5 < z_tasksPending z) zs;
             lowPriorityZones = filter (\<lambda>z. z_priority z = ''low'' \<and> z_tasksPending z < 3) zs
         in
         if length highPriorityZones = 0 \<or> length lowPriorityZones = 0 then
           reply ''There's currently no need for robot redistribution. Zone priorities and task loads are well balanced.''
             ''Resource Distribution'' (DZones zs) TyMultiZone None
         else
           (let redistributionPlan =
                  sourceLoop (redistributableRobots rs lowPriorityZones) []
                    (targetZoneIds highPriorityZones)
            in
            if length redistributionPlan = 0 then
              reply ''After analysis, I don't recommend any robot redistribution at this time. The current allocation is optimal given the task distribution.''
                ''Resource Distribution'' (DZones zs) TyMultiZone None
            else
              reply (''I recommend the following robot redistribution plan to optimize warehouse operations:\<newline>\<newline>''
                     @ join ''\<newline>'' redistributionPlan)
                ''Robot Redistribution Plan'' (DZones zs) TyMultiZone
                (Some (noMeta\<lparr>secondaryData := Some (SLines redistributionPlan)\<rparr>))))
      else
        (let highTaskZones = take 2 (sortBy (\<lambda>a b. z_tasksPending b - z_tasksPending a) zs);
             idleRobots = filter (\<lambda>r. r_status r = ''idle'') rs
         in
         if length idleRobots = 0 then
           reply ''There are currently no idle AMRs available for deployment. All robots are actively engaged in tasks.''
             ''Deployment Recommendation'' DNull TyError None
         else if length highTaskZones = 0 then
           reply ''All zones currently have balanced task loads. No specific deployment recommendation is needed at this time.''
             ''Deployment Recommendation'' (DZones zs) TyMultiZone None
         else
           (let deploymentPlans = deployLoop highTaskZones idleRobots [] in
            reply (''Based on the current warehouse state, I recommend the following deployments:\<newline>\<newline>''
                   @ join ''\<newline>'' deploymentPlans)
              ''Deployment Recommendations'' (DZones highTaskZones) TyMultiZone
              (Some (noMeta\<lparr>secondaryData := Some (SLines deploymentPlans)\<rparr>)))))"


definition lowBatteryNotCharging :: "Robot list \<Rightarrow> Robot list" where
  "lowBatteryNotCharging rs = filter (\<lambda>r. r_batteryLevel r < 30 \<and> r_status r \<noteq> ''charging'') rs"

definition optimizations :: "WarehouseDataType \<Rightarrow> string list" where
  "optimizations data =
     (let rs = robots data; zs = zones data;
          lowBatteryRobots = lowBatteryNotCharging rs;
          maintenanceRobots = filter (\<lambda>r. r_status r = ''maintenance'') rs;
          idleRobots = filter (\<lambda>r. r_status r = ''idle'') rs;
          highTrafficZones = filter (\<lambda>z. z_trafficDensity z = ''high'') zs;
          highTaskZones = filter (\<lambda>z. 5 < z_tasksPending z) zs;
          toolsToRedistribute =
            map fst (filter (\<lambda>(tool, count). (length rs + 2) div 3 < count) (countTools rs))
      in
        (if 0 < length lowBatteryRobots then
           [''Schedule '' @ showNat (length lowBatteryRobots) @ '' AMRs for charging: ''
            @ join '', '' (map (\<lambda>r. ''AMR '' @ showNat (r_id r) @ '' (''
                 @ showInt (r_batteryLevel r) @ ''%)'') lowBatteryRobots)]
         else [])
      @ (if 0 < length maintenanceRobots then
           [''Prioritize maintenance completion for '' @ showNat (length maintenanceRobots)
            @ '' AMRs: '' @ join '', '' (map (\<lambda>r. ''AMR '' @ showNat (r_id r)) maintenanceRobots)]
         else [])
      @ (if 0 < length idleRobots \<and> 0 < length highTaskZones then
           [''Reassign '' @ showNat (min (length idleRobots) (length highTaskZones))
            @ '' idle AMRs to high-task zones: '' @ join '', '' (map z_name highTaskZones)]
         else [])
      @ (if 0 < length highTrafficZones then
           [''Implement traffic control measures in high traffic zones: ''
            @ join '', '' (map z_name highTrafficZones)]
         else [])
      @ (if 0 < length toolsToRedistribute then
           [''Redistribute '' @ join '', '' toolsToRedistribute
            @ '' tools more evenly across AMRs'']
         else []))"

definition operatingOptimally :: string where
  "operatingOptimally =
     ''The warehouse is currently operating at optimal efficiency. Continue to monitor for changes.''"

definition handleOptimizationQuery :: "string \<Rightarrow> WarehouseDataType \<Rightarrow> error + Result" where
  "handleOptimizationQuery query data =
     (let found = optimizations data;
          suggestions =
            (if length found = 0 then [operatingOptimally] else found)
      in reply (''Here are my optimization recommendations for improving warehouse operations:\<newline>\<newline>''
                @ join ''\<newline>\<newline>'' suggestions)
           ''Optimization Recommendations'' (DOverview (overview data)) TyOverview
           (Some (noMeta\<lparr>secondaryData := Some (SLines suggestions)\<rparr>)))"

definition handleForecastQuery :: "string \<Rightarrow> WarehouseDataType \<Rightarrow> error + Result" where
  "handleForecastQuery query data =
     (let rs = robots data; zs = zones data; ov = overview data;
          activePercentage = jsMap (\<lambda>x. x * 100) (jsDiv (o_activeRobots ov) (o_totalRobots ov));
          averageBatteryLevel = jsDiv (sumInts (map r_batteryLevel rs)) (int (length rs));
          maintenanceRobots = countStatus ''maintenance'' rs;
          chargingRobots = countStatus ''charging'' rs;
          timeUntilCritical = mathRound (jsMap (\<lambda>x. (x - 20) / 5) averageBatteryLevel);
          avgTasksPerHour = (of_int (o_tasksCompleted ov) / 8 :: rat);
          currentEfficiency = o_robotEfficiency ov;
          projectedEfficiency = currentEfficiency
            + (if (of_nat (length rs) * (1 / 10) :: rat) < of_nat maintenanceRobots then 5 else 0)
            + (if (of_nat (length rs) * (1 / 5) :: rat) < of_nat chargingRobots then 3 else 0)
            - (if jsLess activePercentage 70 then 2 else 0);
          highTaskZones = filter (\<lambda>z. 5 < z_tasksPending z) zs;
          projections =
            [''Based on current battery levels, approximately ''
             @ showR (mathRound (Fin (of_nat (length rs) * (1 / 5))))
             @ '' AMRs will need charging within the next '' @ showR timeUntilCritical @ '' hours'',
             ''At the current rate, approximately ''
             @ showR (mathRound (Fin (avgTasksPerHour * 24)))
             @ '' tasks will be completed in the next 24 hours'']
            @ (if 0 < maintenanceRobots then
                 [''If maintenance continues at the current rate, '' @ showNat maintenanceRobots
                  @ '' AMRs will resume operations in approximately 3 hours'']
               else [])
            @ [''Warehouse efficiency is projected to ''
               @ (if currentEfficiency < projectedEfficiency then ''increase'' else ''decrease'')
               @ '' to '' @ showInt projectedEfficiency @ ''% in the next 4 hours'']
            @ (if 0 < length highTaskZones then
                 (let zoneTasks = sumInts (map z_tasksPending highTaskZones);
                      zoneRobots = sumInts (map z_robotCount highTaskZones);
                      completionTime = mathCeil (jsDiv zoneTasks (zoneRobots * 2))
                  in [''High-task zones ('' @ join '', '' (map z_name highTaskZones)
                      @ '') will require approximately '' @ showR completionTime
                      @ '' hours to clear current backlog''])
               else [])
      in reply (''Based on current warehouse data, here are my projections for the next 24 hours:\<newline>\<newline>''
                @ join ''\<newline>\<newline>'' projections)
           ''Operational Forecast'' (DOverview ov) TyOverview
           (Some (noMeta\<lparr>secondaryData := Some (SLines projections)\<rparr>)))"

definition zoneCapacity :: "Zone \<Rightarrow> int" where
  "zoneCapacity z = (if z_priority z = ''high'' then 10 else if z_priority z = ''medium'' then 8 else 6)"

definition zoneUtilization :: "Zone \<Rightarrow> string \<times> rat \<times> int" where
  "zoneUtilization z =
     (z_name z, of_int (z_robotCount z) / of_int (zoneCapacity z) * 100, zoneCapacity z)"

definition roundRat :: "rat \<Rightarrow> int" where
  "roundRat q = \<lfloor>q + 1 / 2\<rfloor>"

definition handleUtilizationQuery :: "string \<Rightarrow> WarehouseDataType \<Rightarrow> error + Result" where
  "handleUtilizationQuery query data =
     (let rs = robots data; zs = zones data; ov = overview data;
          robotUtilization = jsMap (\<lambda>x. x * 100) (jsDiv (o_activeRobots ov) (o_totalRobots ov));
          utilizations = map zoneUtilization zs;
          toolCounts = countTools rs;
          zoneCapacityAnalysis =
            map (\<lambda>(name, utilization, capacity).
                   name @ '': '' @ showInt (roundRat utilization) @ ''% utilized (''
                   @ showNat (length (robotsIn rs name)) @ ''/'' @ showInt capacity @ '' AMRs)'')
              utilizations;
          toolUtilizationAnalysis =
            map (\<lambda>(tool, count).
                   tool @ '': '' @ showNat count @ '' AMRs (''
                   @ showInt (roundRat (of_nat count / of_nat (length rs) * 100))
                   @ ''% of fleet)'')
              toolCounts;
          availableCapacity = o_totalRobots ov - o_activeRobots ov;
          additionalTaskCapacity = availableCapacity * 2;
          sortedUtilizations = sortBy (\<lambda>a b. fst (snd b) - fst (snd a)) utilizations
      in case first sortedUtilizations of
           Inl e \<Rightarrow> Inl e
         | Inr mostUtilized \<Rightarrow>
            (case first (sortBy (\<lambda>a b. int (snd b) - int (snd a)) toolCounts) of
               Inl e \<Rightarrow> Inl e
             | Inr mostCommon \<Rightarrow>
                (let insights =
                       [''Overall AMR utilization: '' @ showR (mathRound robotUtilization) @ ''%'',
                        ''Available capacity: '' @ showInt availableCapacity @ '' AMRs'',
                        ''Estimated additional task capacity: '' @ showInt additionalTaskCapacity
                        @ '' tasks'',
                        ''Most utilized zone: '' @ fst mostUtilized,
                        ''Most common tool: '' @ fst mostCommon]
                 in reply (''Current warehouse utilization analysis:\<newline>\<newline>''
                           @ ''Robot Utilization: '' @ showR (mathRound robotUtilization)
                           @ ''% of total fleet\<newline>\<newline>''
                           @ ''Zone Utilization:\<newline>'' @ join ''\<newline>'' zoneCapacityAnalysis
                           @ ''\<newline>\<newline>''
                           @ ''Tool Distribution:\<newline>'' @ join ''\<newline>'' toolUtilizationAnalysis
                           @ ''\<newline>\<newline>''
                           @ ''The warehouse has capacity for approximately ''
                           @ showInt additionalTaskCapacity
                           @ '' additional tasks with the current resource allocation.'')
                      ''Utilization & Capacity Analysis'' (DOverview ov) TyOverview
                      (Some (noMeta\<lparr>secondaryData := Some (SLines insights),
                                    chartData := Some (chartOf
                                      (map (\<lambda>(name, utilization, capacity).
                                              (name, roundRat utilization))
                                         sortedUtilizations))\<rparr>)))))"

text \<open>The wall clock read by \<open>new Date()\<close>: the current time in milliseconds and the
  local hour and minute of a time stamp.\<close>

record Clock =
  c_now :: int
  c_getHours :: "int \<Rightarrow> nat"
  c_getMinutes :: "int \<Rightarrow> nat"

definition priorityScore :: "Zone \<Rightarrow> int" where
  "priorityScore z = (if z_priority z = ''high'' then 3 else if z_priority z = ''medium'' then 2 else 1)"

definition scheduleOrder :: "Zone \<Rightarrow> Zone \<Rightarrow> int" where
  "scheduleOrder a b =
     (if priorityScore b - priorityScore a \<noteq> 0 then priorityScore b - priorityScore a
      else z_tasksPending b - z_tasksPending a)"

fun assignLoop :: "Zone list \<Rightarrow> Robot list \<Rightarrow> (string \<times> string list) list
    \<Rightarrow> (string \<times> string list) list" where
  "assignLoop [] remainingIdleRobots robotAssignments = robotAssignments"
| "assignLoop (zone # more_zones) remainingIdleRobots robotAssignments =
     (let assignments0 = (case map_of robotAssignments (z_name zone) of
                            None \<Rightarrow> setKey (z_name zone) [] robotAssignments
                          | Some _ \<Rightarrow> robotAssignments);
          robotsNeeded = min (nat (z_tasksPending zone)) (length remainingIdleRobots);
          assignedRobots = take robotsNeeded remainingIdleRobots;
          remaining' = drop robotsNeeded remainingIdleRobots;
          assignments1 =
            (if 0 < robotsNeeded then
               setKey (z_name zone)
                 ((case map_of assignments0 (z_name zone) of None \<Rightarrow> [] | Some l \<Rightarrow> l)
                  @ map (\<lambda>r. ''AMR '' @ showNat (r_id r)) assignedRobots) assignments0
             else assignments0)
      in if length remaining' = 0 then assignments1
         else assignLoop more_zones remaining' assignments1)"

definition schedule :: "WarehouseDataType \<Rightarrow> Zone list \<Rightarrow> string list" where
  "schedule data zonesWithTasks =
     (let rs = robots data; zs = zones data;
          lowBatteryRobots = lowBatteryNotCharging rs;
          maintenanceRobots = filter (\<lambda>r. r_status r = ''maintenance'') rs;
          idleRobots = filter (\<lambda>r. r_status r = ''idle'') rs;
          robotAssignments = assignLoop zonesWithTasks idleRobots []
      in
        (if 0 < length lowBatteryRobots then
           [''Immediate charging: ''
            @ join '', '' (map (\<lambda>r. ''AMR '' @ showNat (r_id r) @ '' (''
                 @ showInt (r_batteryLevel r) @ ''%)'') lowBatteryRobots)]
         else [])
      @ concat (map (\<lambda>(zoneName, assignedRobots).
                  if 0 < length assignedRobots then
                    (case find (\<lambda>z. z_name z = zoneName) zs of
                       None \<Rightarrow> []
                     | Some zone \<Rightarrow>
                         [''Assign '' @ join '', '' assignedRobots @ '' to '' @ zoneName @ '' for ''
                          @ showInt (z_tasksPending zone) @ '' pending tasks''])
                  else []) robotAssignments)
      @ (if 0 < length maintenanceRobots then
           [''Maintenance completion (estimated 3 hours): ''
            @ join '', '' (map (\<lambda>r. ''AMR '' @ showNat (r_id r)) maintenanceRobots)]
         else []))"

fun timeSchedule :: "Clock \<Rightarrow> int \<Rightarrow> string list \<Rightarrow> string list" where
  "timeSchedule clock timeOffset [] = []"
| "timeSchedule clock timeOffset (item # items) =
     (let scheduleTime = c_now clock + timeOffset * 60000 in
      (padStart2 (showNat (c_getHours clock scheduleTime)) @ '':''
       @ padStart2 (showNat (c_getMinutes clock scheduleTime)) @ '' - '' @ item)
      # timeSchedule clock (timeOffset + 30) items)"

definition handleSchedulingQuery :: "Clock \<Rightarrow> string \<Rightarrow> WarehouseDataType \<Rightarrow> error + Result" where
  "handleSchedulingQuery clock query data =
     (let zonesWithTasks = sortBy scheduleOrder (filter (\<lambda>z. 0 < z_tasksPending z) (zones data));
          found = schedule data zonesWithTasks;
          items = (if length found = 0
                   then [''No immediate scheduling actions required. All AMRs are appropriately assigned.'']
                   else found);
          timed = timeSchedule clock 0 items
      in reply (''Here is the recommended schedule for the next few hours:\<newline>\<newline>''
                @ join ''\<newline>\<newline>'' timed)
           ''AMR Schedule Recommendation'' (DZones zonesWithTasks) TyMultiZone
           (Some (noMeta\<lparr>secondaryData := Some (SLines timed)\<rparr>)))"


definition statusCounts :: "Robot list \<Rightarrow> (string \<times> int) list" where
  "statusCounts rs =
     [(''active'', int (countStatus ''active'' rs)), (''idle'', int (countStatus ''idle'' rs)),
      (''charging'', int (countStatus ''charging'' rs)),
      (''maintenance'', int (countStatus ''maintenance'' rs))]"

definition handleAllRobotsQuery :: "string \<Rightarrow> WarehouseDataType \<Rightarrow> error + Result" where
  "handleAllRobotsQuery query data =
     (let rs = robots data in
      if rtest batteryPattern query then
        reply (''Here are all '' @ showNat (length rs)
               @ '' AMRs in the warehouse, sorted by batteryLevel.'')
          ''All Robots by BatteryLevel''
          (DRobots (sortBy (\<lambda>a b. r_batteryLevel b - r_batteryLevel a) rs)) TyMultiRobot None
      else if rtest efficiencyPattern query then
        reply (''Here are all '' @ showNat (length rs)
               @ '' AMRs in the warehouse, sorted by efficiency.'')
          ''All Robots by Efficiency''
          (DRobots (sortBy (\<lambda>a b. r_efficiency b - r_efficiency a) rs)) TyMultiRobot None
      else if rtest statusPattern query then
        reply (''There are '' @ showNat (length rs) @ '' AMRs in the warehouse: ''
               @ showNat (countStatus ''active'' rs) @ '' active, ''
               @ showNat (countStatus ''idle'' rs) @ '' idle, ''
               @ showNat (countStatus ''charging'' rs) @ '' charging, and ''
               @ showNat (countStatus ''maintenance'' rs) @ '' in maintenance.'')
          ''All Robots by Status'' (DRobots rs) TyMultiRobot
          (Some (noMeta\<lparr>metricName := Some ''Status'', chartData := Some (statusCounts rs)\<rparr>))
      else
        reply (''Here are all '' @ showNat (length rs) @ '' AMRs in the warehouse.'')
          ''All Robots'' (DRobots rs) TyMultiRobot None)"

text \<open>The lookup \<open>{ high: 3, medium: 2, low: 1 }[level]\<close>; for any other level it is
  \<open>undefined\<close>, the difference is \<open>NaN\<close> and the sort takes the pair as equal.\<close>

definition levelValue :: "string \<Rightarrow> int option" where
  "levelValue level =
     (if level = ''high'' then Some 3 else if level = ''medium'' then Some 2
      else if level = ''low'' then Some 1 else None)"

definition levelOrder :: "string \<Rightarrow> string \<Rightarrow> int" where
  "levelOrder a b =
     (case (levelValue b, levelValue a) of (Some vb, Some va) \<Rightarrow> vb - va | _ \<Rightarrow> 0)"

definition handleAllZonesQuery :: "string \<Rightarrow> WarehouseDataType \<Rightarrow> error + Result" where
  "handleAllZonesQuery query data =
     (let zs = zones data in
      if rtest efficiencyPattern query then
        reply (''Here are all '' @ showNat (length zs)
               @ '' zones in the warehouse, sorted by efficiency.'')
          ''All Zones by Efficiency''
          (DZones (sortBy (\<lambda>a b. z_efficiency b - z_efficiency a) zs)) TyMultiZone None
      else if rtest priorityPattern query then
        reply (''Here are all '' @ showNat (length zs)
               @ '' zones in the warehouse, sorted by priority.'')
          ''All Zones by Priority''
          (DZones (sortBy (\<lambda>a b. levelOrder (z_priority a) (z_priority b)) zs)) TyMultiZone None
      else if rtest trafficPattern query then
        reply (''Here are all '' @ showNat (length zs)
               @ '' zones in the warehouse, sorted by traffic density.'')
          ''All Zones by Traffic density''
          (DZones (sortBy (\<lambda>a b. levelOrder (z_trafficDensity a) (z_trafficDensity b)) zs))
          TyMultiZone None
      else
        reply (''Here are all '' @ showNat (length zs) @ '' zones in the warehouse.'')
          ''All Zones'' (DZones zs) TyMultiZone None)"

definition comparisonAttribute :: "string \<Rightarrow> string" where
  "comparisonAttribute query =
     (if rtest batteryPattern query then ''batteryLevel''
      else if rtest efficiencyPattern query then ''efficiency''
      else if rtest statusPattern query then ''status''
      else if rtest toolPattern query then ''currentTool''
      else if rtest priorityPattern query then ''priority''
      else if rtest trafficPattern query then ''trafficDensity''
      else ''efficiency'')"

definition countLevel :: "(Zone \<Rightarrow> string) \<Rightarrow> string \<Rightarrow> Zone list \<Rightarrow> nat" where
  "countLevel field level zs = length (filter (\<lambda>z. field z = level) zs)"

definition handleComparisonQuery :: "string \<Rightarrow> WarehouseDataType \<Rightarrow> error + Result" where
  "handleComparisonQuery query data =
     (let rs = robots data; zs = zones data;
          isRobotComparison = (includesStr query ''robot'' \<or> includesStr query ''amr'');
          isZoneComparison = includesStr query ''zone'';
          attribute = comparisonAttribute query
      in
      if isRobotComparison then
        (let sortedRobots =
               (if attribute = ''batteryLevel''
                then sortBy (\<lambda>a b. r_batteryLevel b - r_batteryLevel a) rs
                else if attribute = ''efficiency''
                then sortBy (\<lambda>a b. r_efficiency b - r_efficiency a) rs
                else rs)
         in
         if attribute = ''status'' then
           reply (''Comparing AMRs by status: '' @ showNat (countStatus ''active'' rs)
                  @ '' active, '' @ showNat (countStatus ''idle'' rs) @ '' idle, ''
                  @ showNat (countStatus ''charging'' rs) @ '' charging, and ''
                  @ showNat (countStatus ''maintenance'' rs) @ '' in maintenance.'')
             ''Robot Status Comparison'' (DRobots sortedRobots) TyComparison
             (Some (noMeta\<lparr>comparisonType := Some ''Robot'', metricName := Some ''Status'',
                           chartData := Some (statusCounts rs)\<rparr>))
         else if attribute = ''currentTool'' then
           (let toolCounts = countTools rs in
            reply (''Comparing AMRs by current tool: ''
                   @ join '', '' (map (\<lambda>(tool, count). showNat count @ '' using '' @ tool)
                                   toolCounts) @ ''.'')
              ''Robot Tool Comparison'' (DRobots sortedRobots) TyComparison
              (Some (noMeta\<lparr>comparisonType := Some ''Robot'', metricName := Some ''Tool'',
                            chartData := Some (map (\<lambda>(tool, count). (tool, int count))
                                                 toolCounts)\<rparr>)))
         else
           (let readableAttribute =
                  (if attribute = ''batteryLevel'' then ''Battery Level'' else ''Efficiency'')
            in case first sortedRobots of
                 Inl e \<Rightarrow> Inl e
               | Inr leader \<Rightarrow>
                  (let v = (if attribute = ''batteryLevel'' then r_batteryLevel leader
                            else r_efficiency leader)
                   in reply (''Comparing AMRs by '' @ toLowerCase readableAttribute
                             @ ''. The highest is AMR '' @ showNat (r_id leader) @ '' at ''
                             @ showInt v
                             @ (if attribute = ''batteryLevel'' then ''%'' else ''% efficiency'')
                             @ ''.'')
                        (''Robot '' @ readableAttribute @ '' Comparison'')
                        (DRobots sortedRobots) TyComparison
                        (Some (noMeta\<lparr>comparisonType := Some ''Robot'',
                                      metricName := Some readableAttribute\<rparr>)))))
      else if isZoneComparison then
        (let sortedZones =
               (if attribute = ''efficiency''
                then sortBy (\<lambda>a b. z_efficiency b - z_efficiency a) zs else zs)
         in
         if attribute = ''priority'' \<or> attribute = ''trafficDensity'' then
           (let field = (if attribute = ''priority'' then z_priority else z_trafficDensity);
                readableAttribute =
                  (if attribute = ''priority'' then ''Priority'' else ''Traffic Density'')
            in reply (''Comparing zones by '' @ toLowerCase readableAttribute @ '': ''
                      @ showNat (countLevel field ''high'' zs) @ '' high, ''
                      @ showNat (countLevel field ''medium'' zs) @ '' medium, and ''
                      @ showNat (countLevel field ''low'' zs) @ '' low.'')
                 (''Zone '' @ readableAttribute @ '' Comparison'') (DZones sortedZones) TyComparison
                 (Some (noMeta\<lparr>comparisonType := Some ''Zone'',
                               metricName := Some readableAttribute,
                               chartData := Some
                                 [(''high'', int (countLevel field ''high'' zs)),
                                  (''medium'', int (countLevel field ''medium'' zs)),
                                  (''low'', int (countLevel field ''low'' zs))]\<rparr>)))
         else
           (case first sortedZones of
              Inl e \<Rightarrow> Inl e
            | Inr leader \<Rightarrow>
                reply (''Comparing zones by efficiency. The most efficient is '' @ z_name leader
                       @ '' at '' @ showInt (z_efficiency leader) @ ''%.'')
                  ''Zone Efficiency Comparison'' (DZones sortedZones) TyComparison
                  (Some (noMeta\<lparr>comparisonType := Some ''Zone'',
                                metricName := Some ''Efficiency''\<rparr>))))
      else
        reply ''I'm not sure what you want to compare. You can compare robots by battery level, efficiency, status, or tool, or zones by priority, traffic density, or efficiency.''
          ''Comparison'' DNull TyError None)"

definition handleCountQuery :: "string \<Rightarrow> WarehouseDataType \<Rightarrow> error + Result" where
  "handleCountQuery query data =
     (let rs = robots data; zs = zones data; ov = overview data in
      if includesStr query ''robot'' \<or> includesStr query ''amr'' then
        (let activeCount = countStatus ''active'' rs;
             idleCount = countStatus ''idle'' rs;
             chargingCount = countStatus ''charging'' rs;
             maintenanceCount = countStatus ''maintenance'' rs
         in reply (''There are '' @ showNat (length rs) @ '' total AMRs in the warehouse: ''
                   @ showNat activeCount @ '' active, '' @ showNat idleCount @ '' idle, ''
                   @ showNat chargingCount @ '' charging, and '' @ showNat maintenanceCount
                   @ '' in maintenance.'')
              ''Robot Count'' (DOverview ov) TyOverview
              (Some (noMeta\<lparr>secondaryData := Some (SCounts
                 [(''Active'', int activeCount), (''Idle'', int idleCount),
                  (''Charging'', int chargingCount), (''Maintenance'', int maintenanceCount)])\<rparr>)))
      else if includesStr query ''zone'' then
        (let highPriorityCount = countLevel z_priority ''high'' zs;
             mediumPriorityCount = countLevel z_priority ''medium'' zs;
             lowPriorityCount = countLevel z_priority ''low'' zs
         in reply (''There are '' @ showNat (length zs) @ '' total zones in the warehouse: ''
                   @ showNat highPriorityCount @ '' high priority, ''
                   @ showNat mediumPriorityCount @ '' medium priority, and ''
                   @ showNat lowPriorityCount @ '' low priority.'')
              ''Zone Count'' (DZones zs) TyMultiZone
              (Some (noMeta\<lparr>chartData := Some
                 [(''High Priority'', int highPriorityCount),
                  (''Medium Priority'', int mediumPriorityCount),
                  (''Low Priority'', int lowPriorityCount)]\<rparr>)))
      else if includesStr query ''task'' then
        (let totalPendingTasks = sumInts (map z_tasksPending zs);
             totalCompletedTasks = o_tasksCompleted ov
         in reply (''There are '' @ showInt totalPendingTasks @ '' pending tasks and ''
                   @ showInt totalCompletedTasks @ '' completed tasks today across all zones.'')
              ''Task Count'' (DOverview ov) TyOverview
              (Some (noMeta\<lparr>secondaryData := Some (SCounts
                 [(''Pending Tasks'', totalPendingTasks),
                  (''Completed Tasks'', totalCompletedTasks)])\<rparr>)))
      else
        reply (''The warehouse has '' @ showInt (o_totalRobots ov) @ '' total AMRs (''
               @ showInt (o_activeRobots ov) @ '' active) and '' @ showNat (length zs)
               @ '' zones with a total of '' @ showInt (sumInts (map z_tasksPending zs))
               @ '' pending tasks.'')
          ''Warehouse Count Summary'' (DOverview ov) TyOverview None)"

text \<open>The priority and traffic handlers have one shape; they differ in the field they
  read, in their wording and in the closing phrase of the filtered answers.\<close>

definition handlePriorityQuery :: "string \<Rightarrow> WarehouseDataType \<Rightarrow> error + Result" where
  "handlePriorityQuery query data =
     (let zs = zones data;
          highPriorityZones = filter (\<lambda>z. z_priority z = ''high'') zs;
          mediumPriorityZones = filter (\<lambda>z. z_priority z = ''medium'') zs;
          lowPriorityZones = filter (\<lambda>z. z_priority z = ''low'') zs
      in
      if rtest highestPattern query then
        (if length highPriorityZones = 0 then
           reply ''There are no high priority zones in the warehouse currently.''
             ''High Priority Zones'' DNull TyError None
         else
           reply (''There are '' @ showNat (length highPriorityZones) @ '' high priority zones: ''
                  @ join '', '' (map z_name highPriorityZones)
                  @ ''. These zones have a total of ''
                  @ showInt (sumInts (map z_tasksPending highPriorityZones)) @ '' pending tasks.'')
             ''High Priority Zones'' (DZones highPriorityZones) TyMultiZone None)
      else if rtest lowestPattern query then
        (if length lowPriorityZones = 0 then
           reply ''There are no low priority zones in the warehouse currently.''
             ''Low Priority Zones'' DNull TyError None
         else
           reply (''There are '' @ showNat (length lowPriorityZones) @ '' low priority zones: ''
                  @ join '', '' (map z_name lowPriorityZones)
                  @ ''. These zones have a total of ''
                  @ showInt (sumInts (map z_tasksPending lowPriorityZones)) @ '' pending tasks.'')
             ''Low Priority Zones'' (DZones lowPriorityZones) TyMultiZone None)
      else
        reply (''The warehouse has '' @ showNat (length highPriorityZones)
               @ '' high priority zones, '' @ showNat (length mediumPriorityZones)
               @ '' medium priority zones, and '' @ showNat (length lowPriorityZones)
               @ '' low priority zones.'')
          ''Zones by Priority'' (DZones zs) TyMultiZone
          (Some (noMeta\<lparr>metricName := Some ''Priority'',
                        chartData := Some [(''High'', int (length highPriorityZones)),
                                           (''Medium'', int (length mediumPriorityZones)),
                                           (''Low'', int (length lowPriorityZones))]\<rparr>)))"

definition handleTrafficQuery :: "string \<Rightarrow> WarehouseDataType \<Rightarrow> error + Result" where
  "handleTrafficQuery query data =
     (let zs = zones data;
          highTrafficZones = filter (\<lambda>z. z_trafficDensity z = ''high'') zs;
          mediumTrafficZones = filter (\<lambda>z. z_trafficDensity z = ''medium'') zs;
          lowTrafficZones = filter (\<lambda>z. z_trafficDensity z = ''low'') zs
      in
      if rtest highestPattern query then
        (if length highTrafficZones = 0 then
           reply ''There are no high traffic zones in the warehouse currently.''
             ''High Traffic Zones'' DNull TyError None
         else
           reply (''There are '' @ showNat (length highTrafficZones) @ '' high traffic zones: ''
                  @ join '', '' (map z_name highTrafficZones)
                  @ ''. These zones might experience congestion with ''
                  @ showInt (sumInts (map z_robotCount highTrafficZones)) @ '' active robots.'')
             ''High Traffic Zones'' (DZones highTrafficZones) TyMultiZone None)
      else if rtest lowestPattern query then
        (if length lowTrafficZones = 0 then
           reply ''There are no low traffic zones in the warehouse currently.''
             ''Low Traffic Zones'' DNull TyError None
         else
           reply (''There are '' @ showNat (length lowTrafficZones) @ '' low traffic zones: ''
                  @ join '', '' (map z_name lowTrafficZones)
                  @ ''. These zones have good flow with ''
                  @ showInt (sumInts (map z_robotCount lowTrafficZones)) @ '' active robots.'')
             ''Low Traffic Zones'' (DZones lowTrafficZones) TyMultiZone None)
      else
        reply (''The warehouse has '' @ showNat (length highTrafficZones)
               @ '' high traffic zones, '' @ showNat (length mediumTrafficZones)
               @ '' medium traffic zones, and '' @ showNat (length lowTrafficZones)
               @ '' low traffic zones.'')
          ''Zones by Traffic'' (DZones zs) TyMultiZone
          (Some (noMeta\<lparr>metricName := Some ''Traffic Density'',
                        chartData := Some [(''High'', int (length highTrafficZones)),
                                           (''Medium'', int (length mediumTrafficZones)),
                                           (''Low'', int (length lowTrafficZones))]\<rparr>)))"

section \<open>The classifier\<close>

text \<open>\<open>query.toLowerCase().trim()\<close>: the query as the classifier sees it.\<close>

definition normalize :: "string \<Rightarrow> string" where
  "normalize query = trim (toLowerCase query)"


definition fallbackMessage :: string where
  "fallbackMessage = ''I'm not sure how to answer that question. You can ask me about specific AMRs (e.g., \"Where is AMR 03?\"), zones (e.g., \"Show Zone B status\"), or general warehouse information like efficiency or maintenance needs. You can also ask to compare robots or zones, see all robots or zones, get counts, or check priority or traffic information. For more complex operations, try asking about optimizing workflows, deploying robots, or forecasting capacity needs.''"

text \<open>The intent a normalized query is routed to: the complexity check first, then the
  fixed chain of detectors, the first that fires wins.\<close>

datatype Intent =
  Complex | RobotRef "string list" | ZoneRef "string list" | Deployment | Optimization
  | Forecast | Utilization | AllRobots | AllZones | Comparison | Count | Priority | Traffic
  | Overview | Efficiency | Status | Maintenance | Battery | MultiRobotLocation | Scheduling
  | Unmatched

definition classify :: "string \<Rightarrow> Intent" where
  "classify normalizedQuery =
     (if isComplexQuery normalizedQuery then Complex
      else case rmatch robotIdPattern normalizedQuery of
        Some robotMatch \<Rightarrow> RobotRef robotMatch
      | None \<Rightarrow>
       (case rmatch zoneIdPattern normalizedQuery of
          Some zoneMatch \<Rightarrow> ZoneRef zoneMatch
        | None \<Rightarrow>
           if rtest deploymentPattern normalizedQuery \<or> rtest redistributePattern normalizedQuery
           then Deployment
           else if rtest optimizePattern normalizedQuery then Optimization
           else if rtest forecastPattern normalizedQuery \<or> rtest trendPattern normalizedQuery
           then Forecast
           else if rtest utilizationPattern normalizedQuery \<or> rtest capacityPattern normalizedQuery
           then Utilization
           else if rtest allRobotsPattern normalizedQuery then AllRobots
           else if rtest allZonesPattern normalizedQuery then AllZones
           else if rtest comparePattern normalizedQuery then Comparison
           else if rtest countPattern normalizedQuery then Count
           else if rtest priorityPattern normalizedQuery then Priority
           else if rtest trafficPattern normalizedQuery then Traffic
           else if rtest overviewPattern normalizedQuery then Overview
           else if rtest efficiencyPattern normalizedQuery then Efficiency
           else if rtest statusPattern normalizedQuery then Status
           else if rtest maintenancePattern normalizedQuery then Maintenance
           else if rtest batteryPattern normalizedQuery then Battery
           else if rtest locationPattern normalizedQuery
                   \<and> (includesStr normalizedQuery ''robots'' \<or> includesStr normalizedQuery ''amrs'')
           then MultiRobotLocation
           else if rtest schedulePattern normalizedQuery then Scheduling
           else Unmatched))"

definition processQuery :: "Clock \<Rightarrow> string \<Rightarrow> WarehouseDataType \<Rightarrow> error + Result" where
  "processQuery clock query data =
     (let normalizedQuery = normalize query in
      case classify normalizedQuery of
        Complex \<Rightarrow> handleComplexQuery normalizedQuery data
      | RobotRef robotMatch \<Rightarrow> handleRobotQuery robotMatch normalizedQuery data
      | ZoneRef zoneMatch \<Rightarrow> handleZoneQuery zoneMatch normalizedQuery data
      | Deployment \<Rightarrow> handleDeploymentQuery normalizedQuery data
      | Optimization \<Rightarrow> handleOptimizationQuery normalizedQuery data
      | Forecast \<Rightarrow> handleForecastQuery normalizedQuery data
      | Utilization \<Rightarrow> handleUtilizationQuery normalizedQuery data
      | AllRobots \<Rightarrow> handleAllRobotsQuery normalizedQuery data
      | AllZones \<Rightarrow> handleAllZonesQuery normalizedQuery data
      | Comparison \<Rightarrow> handleComparisonQuery normalizedQuery data
      | Count \<Rightarrow> handleCountQuery normalizedQuery data
      | Priority \<Rightarrow> handlePriorityQuery normalizedQuery data
      | Traffic \<Rightarrow> handleTrafficQuery normalizedQuery data
      | Overview \<Rightarrow> handleOverviewQuery normalizedQuery data
      | Efficiency \<Rightarrow> handleEfficiencyQuery normalizedQuery data
      | Status \<Rightarrow> handleStatusQuery normalizedQuery data
      | Maintenance \<Rightarrow> handleMaintenanceQuery normalizedQuery data
      | Battery \<Rightarrow> handleBatteryQuery normalizedQuery data
      | MultiRobotLocation \<Rightarrow> handleMultiRobotLocationQuery normalizedQuery data
      | Scheduling \<Rightarrow> handleSchedulingQuery clock normalizedQuery data
      | Unmatched \<Rightarrow> reply fallbackMessage ''AI Response'' DNull TyError None)"


section \<open>The complexity check, as the code and as the specification count\<close>

text \<open>The ten detectors \<open>isComplexQuery\<close> counts, in its order.\<close>

definition complexityDetectors :: "regex list" where
  "complexityDetectors =
     [robotIdPattern, zoneIdPattern, batteryPattern, efficiencyPattern, maintenancePattern,
      toolPattern, statusPattern, priorityPattern, trafficPattern, comparePattern]"

definition firing :: "regex list \<Rightarrow> string \<Rightarrow> nat" where
  "firing detectors query = length (filter (\<lambda>p. rtest p query) detectors)"

text \<open>
  The count in the specification's words: the keyword families that fire, the plain
  robot-id and zone-id extraction left out. The families are the ones the specification
  lists (battery, efficiency, maintenance, status, location, tool, comparison, priority,
  traffic, deployment, redistribution, optimization, forecast, trend, utilization,
  capacity, schedule, count, idle, active, highest, lowest, all-robots, all-zones).
\<close>

definition keywordFamilies :: "regex list" where
  "keywordFamilies =
     [batteryPattern, efficiencyPattern, maintenancePattern, statusPattern, locationPattern,
      toolPattern, comparePattern, priorityPattern, trafficPattern, deploymentPattern,
      redistributePattern, optimizePattern, forecastPattern, trendPattern,
      utilizationPattern, capacityPattern, schedulePattern, countPattern, idlePattern,
      activePattern, highestPattern, lowestPattern, allRobotsPattern, allZonesPattern]"

definition familiesFiring :: "string \<Rightarrow> nat" where
  "familiesFiring query = firing keywordFamilies query"

section \<open>Notions used in the statements\<close>

text \<open>A decidable condition under which no word of a list occurs anywhere in a text
  that consists of \<open>pre\<close> followed by decimal digits.\<close>

definition wordsAvoid :: "string list \<Rightarrow> string \<Rightarrow> bool" where
  "wordsAvoid ws pre =
     list_all (\<lambda>w. w \<noteq> [] \<and> list_all (\<lambda>c. \<not> isDigit c) w
        \<and> list_all (\<lambda>n. length pre - n < length w \<or> \<not> startsWithCI w (drop n pre))
             [0 ..< length pre]) ws"

section \<open>Reading a result\<close>

definition responseOf :: "error + Result \<Rightarrow> QueryResponse option" where
  "responseOf r = (case r of Inl _ \<Rightarrow> None | Inr res \<Rightarrow> Some (response res))"

definition typeOf :: "error + Result \<Rightarrow> ResponseType option" where
  "typeOf r = map_option rtype (responseOf r)"

definition dataOf :: "error + Result \<Rightarrow> ResponseData option" where
  "dataOf r = map_option rdata (responseOf r)"

definition metadataOf :: "error + Result \<Rightarrow> Metadata option" where
  "metadataOf r = (case responseOf r of None \<Rightarrow> None | Some resp \<Rightarrow> metadata resp)"

definition secondaryLines :: "error + Result \<Rightarrow> string list option" where
  "secondaryLines r =
     (case metadataOf r of
        None \<Rightarrow> None
      | Some md \<Rightarrow> (case secondaryData md of Some (SLines ls) \<Rightarrow> Some ls | _ \<Rightarrow> None))"

definition secondaryCounts :: "error + Result \<Rightarrow> (string \<times> int) list option" where
  "secondaryCounts r =
     (case metadataOf r of
        None \<Rightarrow> None
      | Some md \<Rightarrow> (case secondaryData md of Some (SCounts cs) \<Rightarrow> Some cs | _ \<Rightarrow> None))"

definition chartOfResult :: "error + Result \<Rightarrow> (string \<times> int) list option" where
  "chartOfResult r = (case metadataOf r of None \<Rightarrow> None | Some md \<Rightarrow> chartData md)"

section \<open>Time stamps of a schedule\<close>

text \<open>The scheduling handler stamps the \<open>k\<close>-th item of its schedule (\<open>k = 0, 1, ...\<close>)
  with the local hour and minute the clock gives 30 \<open>k\<close> minutes after the call. The stamps
  of the first \<open>n\<close> items, and the number of items in a reply.\<close>

definition stampAt :: "Clock \<Rightarrow> nat \<Rightarrow> nat \<times> nat" where
  "stampAt clock k =
     (let scheduleTime = c_now clock + int (30 * k) * 60000
      in (c_getHours clock scheduleTime, c_getMinutes clock scheduleTime))"

definition stamps :: "Clock \<Rightarrow> nat \<Rightarrow> (nat \<times> nat) list" where
  "stamps clock n = map (stampAt clock) [0 ..< n]"

definition stampCount :: "error + Result \<Rightarrow> nat" where
  "stampCount r = (case secondaryLines r of None \<Rightarrow> 0 | Some ls \<Rightarrow> length ls)"

section \<open>Sample snapshots\<close>

text \<open>Snapshots in the shape the warehouse data manager provides them: the lookups
  are \<open>robots.find(robot => robot.id === id)\<close> and \<open>zones.find(zone => zone.id === id)\<close>.\<close>

definition mkRobot :: "nat \<Rightarrow> string \<Rightarrow> string \<Rightarrow> int \<Rightarrow> int \<Rightarrow> string \<Rightarrow> Robot" where
  "mkRobot i st z b e tool =
     \<lparr>r_id = i, r_name = ''AMR '' @ padId i, r_status = st, r_zoneId = z, r_batteryLevel = b,
      r_currentTask = Some ''Box Sorting'', r_currentTool = tool, r_efficiency = e,
      r_coordinates = (12, 7)\<rparr>"

definition mkZone :: "string \<Rightarrow> string \<Rightarrow> int \<Rightarrow> string \<Rightarrow> Zone" where
  "mkZone i p pending traffic =
     \<lparr>z_id = i, z_name = i, z_priority = p, z_robotCount = 1, z_tasksPending = pending,
      z_tasksCompleted = 50, z_efficiency = 85, z_trafficDensity = traffic\<rparr>"

definition mkSnapshot :: "Robot list \<Rightarrow> Zone list \<Rightarrow> WarehouseDataType" where
  "mkSnapshot rs zs =
     \<lparr>robots = rs, zones = zs, activities = [],
      overview = \<lparr>o_activeRobots = int (countStatus ''active'' rs),
                  o_totalRobots = int (length rs), o_tasksCompleted = 150,
                  o_robotEfficiency = 81\<rparr>,
      getRobotById = (\<lambda>i. find (\<lambda>r. r_id r = i) rs),
      getZoneById = (\<lambda>i. find (\<lambda>z. z_id z = i) zs)\<rparr>"

definition floorZones :: "Zone list" where
  "floorZones = [mkZone ''Zone A'' ''high'' 7 ''medium'', mkZone ''Zone B'' ''medium'' 4 ''high'',
                 mkZone ''Zone C'' ''low'' 1 ''low'']"

definition fleet :: WarehouseDataType where
  "fleet = mkSnapshot
     [mkRobot 1 ''active'' ''Zone A'' 80 90 ''Forklift Attachment'',
      mkRobot 2 ''idle'' ''Zone A'' 60 70 ''Scanner Module'',
      mkRobot 3 ''charging'' ''Zone B'' 25 85 ''Gripper Arm'',
      mkRobot 4 ''maintenance'' ''Zone C'' 55 80 ''Tote Carrier'']
     floorZones"

text \<open>A snapshot on which no optimization threshold fires, and one without robots.\<close>

definition calmFleet :: WarehouseDataType where
  "calmFleet = mkSnapshot
     [mkRobot 1 ''active'' ''Zone A'' 80 90 ''Forklift Attachment'',
      mkRobot 2 ''active'' ''Zone A'' 60 70 ''Scanner Module'',
      mkRobot 3 ''charging'' ''Zone C'' 25 85 ''Gripper Arm'']
     [mkZone ''Zone A'' ''high'' 2 ''medium'', mkZone ''Zone C'' ''low'' 1 ''low'']"

definition emptyFleet :: WarehouseDataType where
  "emptyFleet = mkSnapshot [] floorZones"

text \<open>A clock in universal time.\<close>

definition utcClock :: "int \<Rightarrow> Clock" where
  "utcClock t = \<lparr>c_now = t, c_getHours = (\<lambda>ms. nat ((ms div 3600000) mod 24)),
                  c_getMinutes = (\<lambda>ms. nat ((ms div 60000) mod 60))\<rparr>"

text \<open>A clock in a time zone at a fixed offset (in milliseconds) from universal time.\<close>

definition offsetClock :: "int \<Rightarrow> int \<Rightarrow> Clock" where
  "offsetClock off t =
     \<lparr>c_now = t, c_getHours = (\<lambda>ms. nat (((ms + off) div 3600000) mod 24)),
      c_getMinutes = (\<lambda>ms. nat (((ms + off) div 60000) mod 60))\<rparr>"

section \<open>Evaluating the character classes\<close>

text \<open>The character classes are ranges of code units; on a character given by its bits
  they are decided without arithmetic.\<close>

lemma isDigit_code [code]:
  "isDigit (Char b0 b1 b2 b3 b4 b5 b6 b7) = (\<not> b7 \<and> \<not> b6 \<and> b5 \<and> b4 \<and> \<not> (b3 \<and> (b2 \<or> b1)))"
  by (cases b0; cases b1; cases b2; cases b3; cases b4; cases b5; cases b6; cases b7;
      simp add: isDigit_def)

lemma isWordChar_code [code]:
  "isWordChar (Char b0 b1 b2 b3 b4 b5 b6 b7) =
     (\<not> b7 \<and> ((\<not> b6 \<and> b5 \<and> b4 \<and> \<not> (b3 \<and> (b2 \<or> b1)))
        \<or> (b6 \<and> (b0 \<or> b1 \<or> b2 \<or> b3 \<or> b4) \<and> \<not> (b4 \<and> b3 \<and> (b2 \<or> (b1 \<and> b0))))
        \<or> (b6 \<and> \<not> b5 \<and> b4 \<and> b3 \<and> b2 \<and> b1 \<and> b0)))"
  by (cases b0; cases b1; cases b2; cases b3; cases b4; cases b5; cases b6; cases b7;
      simp add: isWordChar_def)

lemma isSpace_code [code]:
  "isSpace (Char b0 b1 b2 b3 b4 b5 b6 b7) =
     ((\<not> b7 \<and> \<not> b6 \<and> \<not> b5 \<and> \<not> b4 \<and> b3 \<and> ((\<not> b2 \<and> (b1 \<or> b0)) \<or> (b2 \<and> \<not> b1)))
      \<or> (\<not> b6 \<and> b5 \<and> \<not> b4 \<and> \<not> b3 \<and> \<not> b2 \<and> \<not> b1 \<and> \<not> b0))"
  by (cases b0; cases b1; cases b2; cases b3; cases b4; cases b5; cases b6; cases b7;
      simp add: isSpace_def)

lemma asciiLower_code [code]:
  "asciiLower (Char b0 b1 b2 b3 b4 b5 b6 b7) =
     (if \<not> b7 \<and> b6 \<and> \<not> b5 \<and> (b0 \<or> b1 \<or> b2 \<or> b3 \<or> b4) \<and> \<not> (b4 \<and> b3 \<and> (b2 \<or> (b1 \<and> b0)))
      then Char b0 b1 b2 b3 b4 True b6 b7 else Char b0 b1 b2 b3 b4 b5 b6 b7)"
  by (cases b0; cases b1; cases b2; cases b3; cases b4; cases b5; cases b6; cases b7;
      simp add: asciiLower_def setBit5_def)

lemma lowerChar_code [code]:
  "lowerChar (Char b0 b1 b2 b3 b4 b5 b6 b7) =
     (if (\<not> b7 \<and> b6 \<and> \<not> b5 \<and> (b0 \<or> b1 \<or> b2 \<or> b3 \<or> b4) \<and> \<not> (b4 \<and> b3 \<and> (b2 \<or> (b1 \<and> b0))))
         \<or> (b7 \<and> b6 \<and> \<not> b5 \<and> \<not> (b4 \<and> b3 \<and> b2 \<and> b1 \<and> b0) \<and> \<not> (b4 \<and> \<not> b3 \<and> b2 \<and> b1 \<and> b0))
      then Char b0 b1 b2 b3 b4 True b6 b7 else Char b0 b1 b2 b3 b4 b5 b6 b7)"
  by (cases b0; cases b1; cases b2; cases b3; cases b4; cases b5; cases b6; cases b7;
      simp add: lowerChar_def isUpper_def setBit5_def)

lemma upperChar_code [code]:
  "upperChar (Char b0 b1 b2 b3 b4 b5 b6 b7) =
     (if (\<not> b7 \<and> b6 \<and> b5 \<and> (b0 \<or> b1 \<or> b2 \<or> b3 \<or> b4) \<and> \<not> (b4 \<and> b3 \<and> (b2 \<or> (b1 \<and> b0))))
         \<or> (b7 \<and> b6 \<and> b5 \<and> \<not> (b4 \<and> b3 \<and> b2 \<and> b1 \<and> b0) \<and> \<not> (b4 \<and> \<not> b3 \<and> b2 \<and> b1 \<and> b0))
      then Char b0 b1 b2 b3 b4 False b6 b7 else Char b0 b1 b2 b3 b4 b5 b6 b7)"
  by (cases b0; cases b1; cases b2; cases b3; cases b4; cases b5; cases b6; cases b7;
      simp add: upperChar_def isLower_def setBit5_def)


section \<open>Basic facts\<close>

lemma responseOf_reply:
  "responseOf (reply msg ttl d ty md) = Some \<lparr>title = ttl, rdata = d, rtype = ty, metadata = md\<rparr>"
  by (simp add: reply_def responseOf_def)

section \<open>The optimization handler\<close>

text \<open>
  C7. For every snapshot the optimization handler returns a response whose
  \<open>metadata.secondaryData\<close> is a non-empty list of suggestions: the suggestions of the
  thresholds that fire, and the single "operating optimally" message when none fires.
\<close>

theorem optimization_suggestions_nonempty:
  "secondaryLines (handleOptimizationQuery query data)
     = Some (if optimizations data = [] then [operatingOptimally] else optimizations data)
   \<and> (if optimizations data = [] then [operatingOptimally] else optimizations data) \<noteq> []"
  by (simp add: handleOptimizationQuery_def secondaryLines_def metadataOf_def responseOf_reply
      noMeta_def Let_def)

text \<open>On a snapshot with no low battery outside charging, no maintenance, no idle
  robot, no high traffic and no tool used by more than a third of the fleet, the list is
  the one message.\<close>

theorem optimization_suggestions_witness:
  "secondaryLines (handleOptimizationQuery ''optimize resources'' calmFleet)
     = Some [operatingOptimally]"
proof -
  have "optimizations calmFleet = []"
    by code_simp
  then show ?thesis
    using optimization_suggestions_nonempty [of "''optimize resources''" calmFleet] by simp
qed


section \<open>The count handler\<close>

text \<open>The number of robots of a status is the number of occurrences of the status
  among the statuses of the robots, \<open>count_list (map r_status robots) status\<close>; likewise
  for the zones of a priority.\<close>

lemma count_list_map: "count_list (map f xs) v = length (filter (\<lambda>x. f x = v) xs)"
  by (induction xs) simp_all

lemma sum_count_Cons:
  "distinct vs \<Longrightarrow>
   sum_list (map (count_list (x # xs)) vs)
     = (if x \<in> set vs then 1 else 0) + sum_list (map (count_list xs) vs)"
  by (induction vs) auto

lemma count_list_partition:
  "distinct vs \<Longrightarrow> set xs \<subseteq> set vs \<Longrightarrow> sum_list (map (count_list xs) vs) = length xs"
proof (induction xs)
  case Nil
  then show ?case by (induction vs) simp_all
next
  case (Cons x xs)
  then show ?case
    by (simp del: count_list.simps add: sum_count_Cons)
qed

text \<open>
  C6. When every robot's status is one of active, idle, charging, maintenance and every
  zone's priority is one of high, medium, low: the robot answer of the count handler (a
  query containing "robot" or "amr") reports, in \<open>secondaryData\<close> under the labels Active,
  Idle, Charging, Maintenance and in its message, the number of robots of each of the
  four statuses, and the four numbers sum to \<open>robots.length\<close>; its zone answer (a query
  containing "zone" and neither "robot" nor "amr") reports, in \<open>chartData\<close> under the
  labels High Priority, Medium Priority, Low Priority and in its message, the number of
  zones of each of the three priorities, and the three numbers sum to \<open>zones.length\<close>.
\<close>

theorem count_handler_counts:
  assumes "\<forall>r\<in>set (robots data). r_status r \<in> {''active'', ''idle'', ''charging'', ''maintenance''}"
    and "\<forall>z\<in>set (zones data). z_priority z \<in> {''high'', ''medium'', ''low''}"
  shows "(includesStr query ''robot'' \<or> includesStr query ''amr'' \<longrightarrow>
           secondaryCounts (handleCountQuery query data)
             = Some [(''Active'', int (count_list (map r_status (robots data)) ''active'')),
                     (''Idle'', int (count_list (map r_status (robots data)) ''idle'')),
                     (''Charging'', int (count_list (map r_status (robots data)) ''charging'')),
                     (''Maintenance'', int (count_list (map r_status (robots data)) ''maintenance''))]
           \<and> map_sum id message (handleCountQuery query data)
             = Inr (''There are '' @ showNat (length (robots data)) @ '' total AMRs in the warehouse: ''
                    @ showNat (count_list (map r_status (robots data)) ''active'') @ '' active, ''
                    @ showNat (count_list (map r_status (robots data)) ''idle'') @ '' idle, ''
                    @ showNat (count_list (map r_status (robots data)) ''charging'') @ '' charging, and ''
                    @ showNat (count_list (map r_status (robots data)) ''maintenance'') @ '' in maintenance.'')
           \<and> count_list (map r_status (robots data)) ''active''
               + count_list (map r_status (robots data)) ''idle''
               + count_list (map r_status (robots data)) ''charging''
               + count_list (map r_status (robots data)) ''maintenance'' = length (robots data))
       \<and> (\<not> (includesStr query ''robot'' \<or> includesStr query ''amr'') \<and> includesStr query ''zone'' \<longrightarrow>
           chartOfResult (handleCountQuery query data)
             = Some [(''High Priority'', int (count_list (map z_priority (zones data)) ''high'')),
                     (''Medium Priority'', int (count_list (map z_priority (zones data)) ''medium'')),
                     (''Low Priority'', int (count_list (map z_priority (zones data)) ''low''))]
           \<and> map_sum id message (handleCountQuery query data)
             = Inr (''There are '' @ showNat (length (zones data)) @ '' total zones in the warehouse: ''
                    @ showNat (count_list (map z_priority (zones data)) ''high'') @ '' high priority, ''
                    @ showNat (count_list (map z_priority (zones data)) ''medium'') @ '' medium priority, and ''
                    @ showNat (count_list (map z_priority (zones data)) ''low'') @ '' low priority.'')
           \<and> count_list (map z_priority (zones data)) ''high''
               + count_list (map z_priority (zones data)) ''medium''
               + count_list (map z_priority (zones data)) ''low'' = length (zones data))"
proof (intro conjI impI)
  have "set (map r_status (robots data)) \<subseteq> set [''active'', ''idle'', ''charging'', ''maintenance'']"
    using assms(1) by auto
  from count_list_partition [OF _ this]
  show "count_list (map r_status (robots data)) ''active''
               + count_list (map r_status (robots data)) ''idle''
               + count_list (map r_status (robots data)) ''charging''
               + count_list (map r_status (robots data)) ''maintenance'' = length (robots data)"
    by simp
next
  have "set (map z_priority (zones data)) \<subseteq> set [''high'', ''medium'', ''low'']"
    using assms(2) by auto
  from count_list_partition [OF _ this]
  show "count_list (map z_priority (zones data)) ''high''
               + count_list (map z_priority (zones data)) ''medium''
               + count_list (map z_priority (zones data)) ''low'' = length (zones data)"
    by simp
next
  assume "includesStr query ''robot'' \<or> includesStr query ''amr''"
  then show "secondaryCounts (handleCountQuery query data)
             = Some [(''Active'', int (count_list (map r_status (robots data)) ''active'')),
                     (''Idle'', int (count_list (map r_status (robots data)) ''idle'')),
                     (''Charging'', int (count_list (map r_status (robots data)) ''charging'')),
                     (''Maintenance'', int (count_list (map r_status (robots data)) ''maintenance''))]"
    by (simp add: handleCountQuery_def secondaryCounts_def metadataOf_def responseOf_reply
        noMeta_def Let_def countStatus_def count_list_map)
next
  assume "includesStr query ''robot'' \<or> includesStr query ''amr''"
  then show "map_sum id message (handleCountQuery query data)
             = Inr (''There are '' @ showNat (length (robots data)) @ '' total AMRs in the warehouse: ''
                    @ showNat (count_list (map r_status (robots data)) ''active'') @ '' active, ''
                    @ showNat (count_list (map r_status (robots data)) ''idle'') @ '' idle, ''
                    @ showNat (count_list (map r_status (robots data)) ''charging'') @ '' charging, and ''
                    @ showNat (count_list (map r_status (robots data)) ''maintenance'') @ '' in maintenance.'')"
    by (simp add: handleCountQuery_def reply_def Let_def countStatus_def count_list_map)
next
  assume "\<not> (includesStr query ''robot'' \<or> includesStr query ''amr'') \<and> includesStr query ''zone''"
  then show "chartOfResult (handleCountQuery query data)
             = Some [(''High Priority'', int (count_list (map z_priority (zones data)) ''high'')),
                     (''Medium Priority'', int (count_list (map z_priority (zones data)) ''medium'')),
                     (''Low Priority'', int (count_list (map z_priority (zones data)) ''low''))]"
    by (simp add: handleCountQuery_def chartOfResult_def metadataOf_def responseOf_reply
        noMeta_def Let_def countLevel_def count_list_map)
next
  assume "\<not> (includesStr query ''robot'' \<or> includesStr query ''amr'') \<and> includesStr query ''zone''"
  then show "map_sum id message (handleCountQuery query data)
             = Inr (''There are '' @ showNat (length (zones data)) @ '' total zones in the warehouse: ''
                    @ showNat (count_list (map z_priority (zones data)) ''high'') @ '' high priority, ''
                    @ showNat (count_list (map z_priority (zones data)) ''medium'') @ '' medium priority, and ''
                    @ showNat (count_list (map z_priority (zones data)) ''low'') @ '' low priority.'')"
    by (simp add: handleCountQuery_def reply_def Let_def countLevel_def count_list_map)
qed

text \<open>On the sample fleet, one robot of each status and one zone of each priority; both
  queries are routed to the count handler.\<close>

theorem count_handler_counts_witness:
  "secondaryCounts (handleCountQuery ''how many robots'' fleet)
     = Some [(''Active'', 1), (''Idle'', 1), (''Charging'', 1), (''Maintenance'', 1)]
   \<and> map_sum id message (handleCountQuery ''how many robots'' fleet)
     = Inr ''There are 4 total AMRs in the warehouse: 1 active, 1 idle, 1 charging, and 1 in maintenance.''
   \<and> chartOfResult (handleCountQuery ''how many zones'' fleet)
     = Some [(''High Priority'', 1), (''Medium Priority'', 1), (''Low Priority'', 1)]
   \<and> map_sum id message (handleCountQuery ''how many zones'' fleet)
     = Inr ''There are 3 total zones in the warehouse: 1 high priority, 1 medium priority, and 1 low priority.''
   \<and> processQuery (utcClock 0) ''how many robots'' fleet = handleCountQuery ''how many robots'' fleet
   \<and> processQuery (utcClock 0) ''how many zones'' fleet = handleCountQuery ''how many zones'' fleet"
proof -
  have r: "\<forall>r\<in>set (robots fleet). r_status r \<in> {''active'', ''idle'', ''charging'', ''maintenance''}"
    by code_simp
  have z: "\<forall>z\<in>set (zones fleet). z_priority z \<in> {''high'', ''medium'', ''low''}"
    by code_simp
  have q1: "includesStr ''how many robots'' ''robot''"
    by code_simp
  have q2: "\<not> (includesStr ''how many zones'' ''robot'' \<or> includesStr ''how many zones'' ''amr'')
            \<and> includesStr ''how many zones'' ''zone''"
    by code_simp
  have n: "count_list (map r_status (robots fleet)) ''active'' = 1"
    "count_list (map r_status (robots fleet)) ''idle'' = 1"
    "count_list (map r_status (robots fleet)) ''charging'' = 1"
    "count_list (map r_status (robots fleet)) ''maintenance'' = 1"
    "count_list (map z_priority (zones fleet)) ''high'' = 1"
    "count_list (map z_priority (zones fleet)) ''medium'' = 1"
    "count_list (map z_priority (zones fleet)) ''low'' = 1"
    "length (robots fleet) = 4" "length (zones fleet) = 3"
    by code_simp+
  have s: "showNat 1 = ''1''" "showNat 3 = ''3''" "showNat 4 = ''4''"
    by code_simp+
  have p: "processQuery (utcClock 0) ''how many robots'' fleet = handleCountQuery ''how many robots'' fleet"
    "processQuery (utcClock 0) ''how many zones'' fleet = handleCountQuery ''how many zones'' fleet"
    by code_simp+
  from count_handler_counts [OF r z, of "''how many robots''"] q1
  have "secondaryCounts (handleCountQuery ''how many robots'' fleet)
     = Some [(''Active'', 1), (''Idle'', 1), (''Charging'', 1), (''Maintenance'', 1)]
   \<and> map_sum id message (handleCountQuery ''how many robots'' fleet)
     = Inr ''There are 4 total AMRs in the warehouse: 1 active, 1 idle, 1 charging, and 1 in maintenance.''"
    unfolding n s by simp
  moreover from count_handler_counts [OF r z, of "''how many zones''"] q2
  have "chartOfResult (handleCountQuery ''how many zones'' fleet)
     = Some [(''High Priority'', 1), (''Medium Priority'', 1), (''Low Priority'', 1)]
   \<and> map_sum id message (handleCountQuery ''how many zones'' fleet)
     = Inr ''There are 3 total zones in the warehouse: 1 high priority, 1 medium priority, and 1 low priority.''"
    unfolding n s by simp
  ultimately show ?thesis
    using p by simp
qed


section \<open>Complexity routing\<close>

lemma firing_Nil: "firing [] q = 0"
  by (simp add: firing_def)

lemma firing_Cons: "firing (p # ps) q = countIf (rtest p q) + firing ps q"
  by (simp add: firing_def countIf_def)

lemma firing_count: "patternCount q = firing complexityDetectors q"
  by (simp add: patternCount_def complexityDetectors_def firing_Cons firing_Nil)

lemma classify_Complex: "classify q = Complex \<longleftrightarrow> isComplexQuery q"
  by (simp add: classify_def if_distrib [where f = "\<lambda>x. x = Complex"]
      option.case_distrib [where h = "\<lambda>x. x = Complex"] split del: if_split
      cong: if_cong option.case_cong)
    (simp split: option.splits)

lemma processQuery_Complex:
  "classify (normalize query) = Complex \<Longrightarrow>
   processQuery clock query data = handleComplexQuery (normalize query) data"
  by (simp add: processQuery_def Let_def)

text \<open>
  C3, as the claim states it, fails in both directions. On "deploy boost plan" three
  keyword families fire (deployment, optimization, schedule) and the query goes to the
  single-intent deployment handler. On "amr 1 zone a fix" one keyword family fires
  (maintenance) and the query goes to the complex handler, because the robot-id and the
  zone-id detector are counted.
\<close>

theorem complexity_counterexample:
  "familiesFiring (normalize ''deploy boost plan'') = 3
   \<and> classify (normalize ''deploy boost plan'') = Deployment
   \<and> familiesFiring (normalize ''amr 1 zone a fix'') = 1
   \<and> classify (normalize ''amr 1 zone a fix'') = Complex"
  by code_simp

text \<open>
  C3, amended. The classifier counts how many of ten detectors fire on the normalized
  query: robot-id, zone-id, battery, efficiency, maintenance, tool, status, priority,
  traffic and comparison. When the count is at least 3 the query is classified complex
  and \<open>processQuery\<close> is the complex handler's answer, no single-intent handler runs; when
  the count is below 3 the query is not classified complex.
\<close>

theorem complexity_routing:
  "(3 \<le> firing complexityDetectors (normalize query) \<longrightarrow>
      classify (normalize query) = Complex
      \<and> processQuery clock query data = handleComplexQuery (normalize query) data)
   \<and> (firing complexityDetectors (normalize query) < 3 \<longrightarrow>
      classify (normalize query) \<noteq> Complex)"
  by (simp add: classify_Complex processQuery_Complex isComplexQuery_def firing_count)

theorem complexity_routing_witness:
  "firing complexityDetectors (normalize ''AMR 1 zone A fix'') = 3
   \<and> classify (normalize ''AMR 1 zone A fix'') = Complex
   \<and> processQuery (utcClock 0) ''AMR 1 zone A fix'' fleet
      = handleComplexQuery (normalize ''AMR 1 zone A fix'') fleet
   \<and> firing complexityDetectors (normalize ''deploy boost plan'') = 0
   \<and> classify (normalize ''deploy boost plan'') \<noteq> Complex"
proof -
  have a: "firing complexityDetectors (normalize ''AMR 1 zone A fix'') = 3"
    by code_simp
  have b: "firing complexityDetectors (normalize ''deploy boost plan'') = 0"
    by code_simp
  show ?thesis
    using complexity_routing [of "''AMR 1 zone A fix''" "utcClock 0" fleet]
      complexity_routing [of "''deploy boost plan''" "utcClock 0" fleet] a b
    by simp
qed

section \<open>Exceptions\<close>

text \<open>
  C1. The engine is meant never to throw. On a snapshot without robots the query
  "highest efficiency robot" reaches the efficiency handler, which reads \<open>.id\<close> of the
  first element of the sorted, empty robot array: a \<open>TypeError\<close> leaves \<open>processQuery\<close>.
\<close>

theorem processQuery_throws_on_empty_fleet:
  "processQuery (utcClock 0) ''highest efficiency robot'' emptyFleet = Inl TypeError"
  by code_simp

section \<open>The clock\<close>

lemma length_timeSchedule: "length (timeSchedule clock offset items) = length items"
  by (induction items arbitrary: offset) (simp_all add: Let_def)

lemma timeSchedule_stamps:
  "(\<And>k. k < length items \<Longrightarrow> stampAt clock (j + k) = stampAt clock' (j + k)) \<Longrightarrow>
   timeSchedule clock (int (30 * j)) items = timeSchedule clock' (int (30 * j)) items"
proof (induction items arbitrary: j)
  case Nil
  show ?case by simp
next
  case (Cons item items)
  have "stampAt clock (j + 0) = stampAt clock' (j + 0)"
    by (rule Cons.prems) simp
  then have head: "c_getHours clock (c_now clock + int (30 * j) * 60000)
                 = c_getHours clock' (c_now clock' + int (30 * j) * 60000)"
    "c_getMinutes clock (c_now clock + int (30 * j) * 60000)
                 = c_getMinutes clock' (c_now clock' + int (30 * j) * 60000)"
    by (simp_all add: stampAt_def Let_def)
  have "timeSchedule clock (int (30 * Suc j)) items = timeSchedule clock' (int (30 * Suc j)) items"
  proof (rule Cons.IH)
    fix k assume "k < length items"
    then have "stampAt clock (j + Suc k) = stampAt clock' (j + Suc k)"
      by (intro Cons.prems) simp
    then show "stampAt clock (Suc j + k) = stampAt clock' (Suc j + k)"
      by simp
  qed
  moreover have "int (30 * j) + 30 = int (30 * Suc j)"
    by simp
  ultimately have "timeSchedule clock (int (30 * j) + 30) items
      = timeSchedule clock' (int (30 * j) + 30) items"
    by (simp only:)
  with head show ?case
    by (simp only: timeSchedule.simps Let_def)
qed

lemma stamps_nth:
  "stamps clock n = stamps clock' n \<Longrightarrow> k < n \<Longrightarrow> stampAt clock k = stampAt clock' k"
proof -
  assume e: "stamps clock n = stamps clock' n" and k: "k < n"
  then have "stamps clock n ! k = stamps clock' n ! k"
    by simp
  with k show ?thesis
    by (simp add: stamps_def)
qed

lemma timeSchedule_eq:
  "stamps clock (length items) = stamps clock' (length items) \<Longrightarrow>
   timeSchedule clock 0 items = timeSchedule clock' 0 items"
  using timeSchedule_stamps [of items clock 0 clock'] stamps_nth [of clock "length items" clock']
  by simp

lemma stampCount_reply:
  "stampCount (reply msg ttl d ty (Some (noMeta\<lparr>secondaryData := Some (SLines ls)\<rparr>))) = length ls"
  by (simp add: stampCount_def secondaryLines_def metadataOf_def responseOf_reply noMeta_def)

lemma scheduling_stamps:
  assumes "stamps clock (stampCount (handleSchedulingQuery clock q data))
         = stamps clock' (stampCount (handleSchedulingQuery clock q data))"
  shows "handleSchedulingQuery clock q data = handleSchedulingQuery clock' q data"
proof -
  define items where "items =
     (let found = schedule data (sortBy scheduleOrder (filter (\<lambda>z. 0 < z_tasksPending z) (zones data)))
      in if length found = 0
         then [''No immediate scheduling actions required. All AMRs are appropriately assigned.'']
         else found)"
  have unfold: "handleSchedulingQuery c q data =
      reply (''Here is the recommended schedule for the next few hours:\<newline>\<newline>''
                @ join ''\<newline>\<newline>'' (timeSchedule c 0 items))
           ''AMR Schedule Recommendation''
           (DZones (sortBy scheduleOrder (filter (\<lambda>z. 0 < z_tasksPending z) (zones data))))
           TyMultiZone
           (Some (noMeta\<lparr>secondaryData := Some (SLines (timeSchedule c 0 items))\<rparr>))" for c
    unfolding items_def by (simp add: handleSchedulingQuery_def Let_def)
  have "stampCount (handleSchedulingQuery clock q data) = length items"
    by (simp only: unfold stampCount_reply length_timeSchedule)
  with assms have "stamps clock (length items) = stamps clock' (length items)"
    by (simp only:)
  then have "timeSchedule clock 0 items = timeSchedule clock' 0 items"
    by (rule timeSchedule_eq)
  then show ?thesis
    by (simp only: unfold)
qed

lemma processQuery_Scheduling:
  "classify (normalize query) = Scheduling \<Longrightarrow>
   processQuery clock query data = handleSchedulingQuery clock (normalize query) data"
  by (simp add: processQuery_def Let_def)

lemma processQuery_not_Scheduling:
  "classify (normalize query) \<noteq> Scheduling \<Longrightarrow>
   processQuery clock query data = processQuery clock' query data"
  by (cases "classify (normalize query)") (simp_all add: processQuery_def Let_def)

lemma minute_shift: "(t + int (30 * k) * 60000 + off) div 60000 = (t + off) div 60000 + int (30 * k)"
proof -
  have "(t + off + int (30 * k) * 60000) div 60000 = int (30 * k) + (t + off) div 60000"
    by (rule div_mult_self1) simp
  moreover have "t + int (30 * k) * 60000 + off = t + off + int (30 * k) * 60000"
    by (simp only: add.assoc add.commute)
  ultimately show ?thesis
    by (simp only: add.commute)
qed

lemma hour_of_minute: "(x::int) div 3600000 = (x div 60000) div 60"
proof -
  have "x div (60000 * 60) = (x div 60000) div 60"
    by (rule zdiv_zmult2_eq) simp
  then show ?thesis
    by simp
qed

lemma minute_of_day:
  "(a::int) mod 1440 = 60 * ((a div 60) mod 24) + a mod 60"
proof -
  have "a mod (60 * 24) = 60 * ((a div 60) mod 24) + a mod 60"
    by (rule zmod_zmult2_eq) simp
  then show ?thesis
    by simp
qed

lemma hour_of_day: "((y::int) mod 1440) div 60 = (y div 60) mod 24"
proof -
  have "(60 * ((y div 60) mod 24) + y mod 60) div 60 = (y div 60) mod 24 + (y mod 60) div 60"
    by (rule div_mult_self4) simp
  then show ?thesis
    by (simp add: minute_of_day)
qed

lemma minute_of_hour: "((y::int) mod 1440) mod 60 = y mod 60"
  by (rule mod_mod_cancel) simp

lemma same_minute_of_day:
  assumes "((a::int) div 60) mod 24 = (b div 60) mod 24" and "a mod 60 = b mod 60"
  shows "((a + x) div 60) mod 24 = ((b + x) div 60) mod 24 \<and> (a + x) mod 60 = (b + x) mod 60"
proof -
  have "a mod 1440 = b mod 1440"
    using assms by (simp only: minute_of_day)
  then have e: "(a + x) mod 1440 = (b + x) mod 1440"
    by (rule mod_add_cong) simp
  from e have "((a + x) mod 1440) div 60 = ((b + x) mod 1440) div 60"
    by (simp only:)
  then have h: "((a + x) div 60) mod 24 = ((b + x) div 60) mod 24"
    by (simp only: hour_of_day)
  from e have "((a + x) mod 1440) mod 60 = ((b + x) mod 1440) mod 60"
    by (simp only:)
  then have m: "(a + x) mod 60 = (b + x) mod 60"
    by (simp only: minute_of_hour)
  from h m show ?thesis
    by (rule conjI)
qed

lemma nat_mod_eq: "0 < n \<Longrightarrow> nat (a mod n) = nat (b mod n) \<Longrightarrow> a mod n = b mod (n::int)"
  by (simp add: eq_nat_nat_iff)

lemma offset_stampAt:
  assumes "c_getHours (offsetClock off t) t = c_getHours (offsetClock off t') t'"
    and "c_getMinutes (offsetClock off t) t = c_getMinutes (offsetClock off t') t'"
  shows "stampAt (offsetClock off t) k = stampAt (offsetClock off t') k"
proof -
  let ?a = "(t + off) div 60000" and ?b = "(t' + off) div 60000"
  have "nat (((t + off) div 3600000) mod 24) = nat (((t' + off) div 3600000) mod 24)"
    using assms(1) by (simp add: offsetClock_def)
  then have "((t + off) div 3600000) mod 24 = ((t' + off) div 3600000) mod 24"
    by (rule nat_mod_eq [rotated]) simp
  then have h: "(?a div 60) mod 24 = (?b div 60) mod 24"
    by (simp only: hour_of_minute)
  have "nat (?a mod 60) = nat (?b mod 60)"
    using assms(2) by (simp add: offsetClock_def)
  then have m: "?a mod 60 = ?b mod 60"
    by (rule nat_mod_eq [rotated]) simp
  have s: "stampAt (offsetClock off u) k
      = (nat ((((u + off) div 60000 + int (30 * k)) div 60) mod 24),
         nat (((u + off) div 60000 + int (30 * k)) mod 60))" for u
    by (simp only: stampAt_def offsetClock_def Let_def Clock.select_convs hour_of_minute minute_shift)
  from same_minute_of_day [OF h m, of "int (30 * k)"] show ?thesis
    by (simp only: s)
qed

lemma offset_stamps:
  assumes "c_getHours (offsetClock off t) t = c_getHours (offsetClock off t') t'"
    and "c_getMinutes (offsetClock off t) t = c_getMinutes (offsetClock off t') t'"
  shows "stamps (offsetClock off t) n = stamps (offsetClock off t') n"
  by (simp add: stamps_def offset_stampAt [OF assms])

lemma utcClock_offset: "utcClock t = offsetClock 0 t"
  by (simp add: utcClock_def offsetClock_def)

text \<open>
  C4, as the claim states it, fails: the scheduling handler stamps every item with the
  local time of the call, so the same query on the same snapshot answers differently one
  minute later.
\<close>

theorem clock_counterexample:
  "processQuery (utcClock 0) ''plan'' fleet \<noteq> processQuery (utcClock 60000) ''plan'' fleet"
  by code_simp

text \<open>
  C4, amended. Two calls with the same query and the same snapshot yield identical
  output: whenever the query is not routed to the scheduling handler, whatever the two
  clocks read; for every query, whenever the two clocks give the same local hour and
  minute at the stamp times of the reply, the \<open>k\<close>-th schedule item being stamped with the
  time of the call plus 30 \<open>k\<close> minutes; and so, in a time zone at a fixed offset from
  universal time, whenever the clock gives the same local hour and minute at the two
  calls.
\<close>

theorem clock_independence:
  "(classify (normalize query) \<noteq> Scheduling \<longrightarrow>
      processQuery clock query data = processQuery clock' query data)
   \<and> (stamps clock (stampCount (processQuery clock query data))
        = stamps clock' (stampCount (processQuery clock query data)) \<longrightarrow>
      processQuery clock query data = processQuery clock' query data)
   \<and> (c_getHours (offsetClock off t) t = c_getHours (offsetClock off t') t'
      \<and> c_getMinutes (offsetClock off t) t = c_getMinutes (offsetClock off t') t' \<longrightarrow>
      processQuery (offsetClock off t) query data = processQuery (offsetClock off t') query data)"
proof -
  have general: "processQuery c query data = processQuery c' query data"
    if st: "stamps c (stampCount (processQuery c query data))
        = stamps c' (stampCount (processQuery c query data))" for c c'
  proof (cases "classify (normalize query) = Scheduling")
    case True
    then have p: "processQuery d query data = handleSchedulingQuery d (normalize query) data" for d
      by (rule processQuery_Scheduling)
    from st have "stamps c (stampCount (handleSchedulingQuery c (normalize query) data))
        = stamps c' (stampCount (handleSchedulingQuery c (normalize query) data))"
      by (simp only: p)
    then have "handleSchedulingQuery c (normalize query) data
        = handleSchedulingQuery c' (normalize query) data"
      by (rule scheduling_stamps)
    then show ?thesis
      by (simp only: p)
  next
    case False
    then show ?thesis
      by (rule processQuery_not_Scheduling)
  qed
  show ?thesis
  proof (intro conjI impI)
    assume "classify (normalize query) \<noteq> Scheduling"
    then show "processQuery clock query data = processQuery clock' query data"
      by (rule processQuery_not_Scheduling)
  next
    assume "stamps clock (stampCount (processQuery clock query data))
        = stamps clock' (stampCount (processQuery clock query data))"
    then show "processQuery clock query data = processQuery clock' query data"
      by (rule general)
  next
    assume "c_getHours (offsetClock off t) t = c_getHours (offsetClock off t') t'
      \<and> c_getMinutes (offsetClock off t) t = c_getMinutes (offsetClock off t') t'"
    then have "stamps (offsetClock off t) n = stamps (offsetClock off t') n" for n
      by (intro offset_stamps) simp_all
    then show "processQuery (offsetClock off t) query data
        = processQuery (offsetClock off t') query data"
      by (intro general)
  qed
qed

text \<open>A count query one minute apart; a scheduling query one second apart within the
  same minute; and a scheduling query a day and 58 seconds apart, five and a half hours
  east of Greenwich.\<close>

theorem clock_independence_witness:
  "processQuery (utcClock 0) ''how many robots'' fleet
     = processQuery (utcClock 60000) ''how many robots'' fleet
   \<and> processQuery (utcClock 0) ''plan'' fleet = processQuery (utcClock 1000) ''plan'' fleet
   \<and> processQuery (offsetClock 19800000 1000) ''plan'' fleet
     = processQuery (offsetClock 19800000 86459000) ''plan'' fleet"
proof -
  have a: "classify (normalize ''how many robots'') \<noteq> Scheduling"
    by code_simp
  have b: "stamps (utcClock 0) (stampCount (processQuery (utcClock 0) ''plan'' fleet))
         = stamps (utcClock 1000) (stampCount (processQuery (utcClock 0) ''plan'' fleet))"
    by code_simp
  have c: "c_getHours (offsetClock 19800000 1000) 1000
             = c_getHours (offsetClock 19800000 86459000) 86459000
         \<and> c_getMinutes (offsetClock 19800000 1000) 1000
             = c_getMinutes (offsetClock 19800000 86459000) 86459000"
    by code_simp
  from a b c
    clock_independence [of "''how many robots''" "utcClock 0" fleet "utcClock 60000"]
    clock_independence [of "''plan''" "utcClock 0" fleet "utcClock 1000"]
    clock_independence [of "''plan''" _ fleet _ 19800000 1000 86459000]
  show ?thesis
    by blast
qed

section \<open>Display ids\<close>

text \<open>
  C9. Display ids are meant to be padded to two digits everywhere. The robot handler
  pads ("AMR 01"); the efficiency handler, like the other handlers that name a robot,
  prints the bare id of the same robot ("AMR 1").
\<close>

theorem display_id_unpadded:
  "map_sum id message (processQuery (utcClock 0) ''highest efficiency robot'' fleet)
     = Inr ''The most efficient robot is AMR 1 with an efficiency rating of 90%. It's currently active in Zone A.''
   \<and> map_sum id (\<lambda>r. title (response r)) (processQuery (utcClock 0) ''AMR 1'' fleet)
     = Inr ''AMR 01 Information''"
  by code_simp


section \<open>Facts about replies\<close>

lemma typeOf_reply: "typeOf (reply msg ttl d ty md) = Some ty"
  by (simp add: typeOf_def responseOf_reply)

lemma dataOf_reply: "dataOf (reply msg ttl d ty md) = Some d"
  by (simp add: dataOf_def responseOf_reply)

lemma metadataOf_reply: "metadataOf (reply msg ttl d ty md) = md"
  by (simp add: metadataOf_def responseOf_reply)

section \<open>Comparing two named robots\<close>

text \<open>
  C5, as the claim states it, fails: on a snapshot where robot 1 has efficiency 90 and
  robot 2 has efficiency 70, "compare AMR 1 and AMR 2" is answered with type \<open>robot\<close> and
  without chart data. Two detectors fire (robot-id and comparison), so the query is not
  complex, and the robot-id detector comes first in the chain.
\<close>

theorem compare_two_robots_counterexample:
  "typeOf (processQuery (utcClock 0) ''compare AMR 1 and AMR 2'' fleet) = Some TyRobot
   \<and> chartOfResult (processQuery (utcClock 0) ''compare AMR 1 and AMR 2'' fleet) = None
   \<and> map r_efficiency (robots fleet) = [90, 70, 85, 80]"
  by code_simp

text \<open>
  C5, amended. For the input "compare AMR 1 and AMR 2" on a snapshot that has robot 1,
  the engine returns the robot handler's general answer for robot 1: \<open>response.type\<close> is
  \<open>robot\<close>, \<open>data\<close> is robot 1, the title is "AMR 01 Information", and there is no
  metadata, hence no \<open>chartData\<close>.
\<close>

theorem compare_two_robots:
  assumes "getRobotById data 1 = Some r"
  shows "processQuery clock ''compare AMR 1 and AMR 2'' data
     = reply (''AMR 01 is a '' @ r_status r @ '' robot in '' @ r_zoneId r
              @ ''. It has a battery level of '' @ showInt (r_batteryLevel r)
              @ ''% and is currently '' @ taskPhrase r @ ''.'')
         ''AMR 01 Information'' (DRobot r) TyRobot None"
proof -
  have c: "classify (normalize ''compare AMR 1 and AMR 2'') = RobotRef [''amr'', ''1'']"
    by code_simp
  have n: "normalize ''compare AMR 1 and AMR 2'' = ''compare amr 1 and amr 2''"
    by code_simp
  have p: "parseInt (capture 2 [''amr'', ''1'']) = 1" "padId 1 = ''01''"
    by code_simp+
  have t: "\<not> rtest locationPattern ''compare amr 1 and amr 2''"
    "\<not> rtest statusPattern ''compare amr 1 and amr 2''"
    "\<not> rtest batteryPattern ''compare amr 1 and amr 2''"
    "\<not> rtest toolPattern ''compare amr 1 and amr 2''"
    by code_simp+
  show ?thesis
    using assms c t p by (simp add: processQuery_def handleRobotQuery_def n Let_def)
qed

theorem compare_two_robots_witness:
  "typeOf (processQuery (utcClock 0) ''compare AMR 1 and AMR 2'' fleet) = Some TyRobot
   \<and> dataOf (processQuery (utcClock 0) ''compare AMR 1 and AMR 2'' fleet)
       = Some (DRobot (mkRobot 1 ''active'' ''Zone A'' 80 90 ''Forklift Attachment''))
   \<and> metadataOf (processQuery (utcClock 0) ''compare AMR 1 and AMR 2'' fleet) = None"
proof -
  have "getRobotById fleet 1 = Some (mkRobot 1 ''active'' ''Zone A'' 80 90 ''Forklift Attachment'')"
    by code_simp
  from compare_two_robots [OF this, of "utcClock 0"] show ?thesis
    by (simp add: typeOf_reply dataOf_reply metadataOf_reply)
qed

section \<open>The deployment handler\<close>

text \<open>\<open>processQuery\<close> looks for a zone reference before it looks for the deployment
  keywords: a query that reaches the deployment handler names no zone.\<close>

lemma deployment_names_no_zone:
  "classify q = Deployment \<Longrightarrow> rmatch zoneIdPattern q = None"
proof (rule ccontr)
  assume d: "classify q = Deployment" and "rmatch zoneIdPattern q \<noteq> None"
  then obtain m where m: "rmatch zoneIdPattern q = Some m"
    by auto
  have "classify q \<noteq> Deployment"
  proof (cases "isComplexQuery q")
    case True
    then show ?thesis
      by (simp add: classify_def)
  next
    case False
    show ?thesis
    proof (cases "rmatch robotIdPattern q")
      case None
      with False m show ?thesis
        by (simp add: classify_def)
    next
      case (Some rm)
      with False show ?thesis
        by (simp add: classify_def)
    qed
  qed
  with d show False
    by simp
qed

text \<open>
  C8. A deployment query that names its target zone is meant to be answered with the
  robots selected for that zone. Such a query never reaches the deployment handler:
  "deploy 2 robots to zone b" is a zone reference for the classifier and is answered by
  the zone handler with the description of Zone B, type \<open>zone\<close>, and no robot is selected.
  The branch of the deployment handler that selects the robots for a named zone, were it
  given the same query, would have answered with a deployment plan.
\<close>

theorem targeted_deployment_answered_by_zone_handler:
  "classify (normalize ''deploy 2 robots to zone b'') = ZoneRef [''b'']
   \<and> typeOf (processQuery (utcClock 0) ''deploy 2 robots to zone b'' fleet) = Some TyZone
   \<and> dataOf (processQuery (utcClock 0) ''deploy 2 robots to zone b'' fleet)
       = Some (DZone (mkZone ''Zone B'' ''medium'' 4 ''high''))
   \<and> map_sum id message (processQuery (utcClock 0) ''deploy 2 robots to zone b'' fleet)
       = Inr ''Zone B currently has 1 active AMRs. There are 1 AMRs in this zone: AMR 3. The zone has 4 pending tasks and 50 completed tasks.''
   \<and> map_sum id message (handleDeploymentQuery (normalize ''deploy 2 robots to zone b'') fleet)
       = Inr ''I can deploy 1 AMRs to Zone B: AMR 2 (60% battery, currently idle).''"
  by code_simp


section \<open>Queries that name a robot\<close>

lemma isDigit_digitOf: "d < 10 \<Longrightarrow> isDigit (digitOf d)"
  by (simp add: isDigit_def digitOf_def)

lemma digitVal_digitOf: "d < 10 \<Longrightarrow> digitVal (digitOf d) = d"
  by (simp add: digitVal_def digitOf_def)

lemma showNat_digits: "\<forall>c\<in>set (showNat n). isDigit c"
proof (induction n rule: showNat.induct)
  case (1 n)
  then show ?case
    by (subst showNat.simps) (auto simp: isDigit_digitOf)
qed

lemma showNat_nonempty: "showNat n \<noteq> []"
  by (subst showNat.simps) simp

lemma parseDigits_showNat:
  "foldl (\<lambda>acc c. acc * 10 + digitVal c) 0 (showNat n) = n"
proof (induction n rule: showNat.induct)
  case (1 n)
  show ?case
  proof (cases "n < 10")
    case True
    then show ?thesis
      by (subst showNat.simps) (simp add: digitVal_digitOf)
  next
    case False
    with 1 show ?thesis
      by (subst showNat.simps) (simp add: digitVal_digitOf)
  qed
qed

lemma parseInt_showNat: "parseInt (showNat n) = n"
proof -
  have "takeWhile isDigit (showNat n) = showNat n"
    using showNat_digits by (simp add: takeWhile_eq_all_conv)
  then show ?thesis
    unfolding parseInt_def by (simp only: parseDigits_showNat)
qed

lemma isDigit_not_upper: "isDigit c \<Longrightarrow> \<not> isUpper c"
  by (simp add: isDigit_def isUpper_def Let_def)

lemma isDigit_not_space: "isDigit c \<Longrightarrow> \<not> isSpace c"
  by (simp add: isDigit_def isSpace_def Let_def)

lemma isDigit_word: "isDigit c \<Longrightarrow> isWordChar c"
  by (simp add: isDigit_def isWordChar_def Let_def)

lemma asciiLower_digit: "isDigit c \<Longrightarrow> asciiLower c = c"
  by (simp add: isDigit_def asciiLower_def Let_def)

lemma toLowerCase_digits: "\<forall>c\<in>set ds. isDigit c \<Longrightarrow> toLowerCase ds = ds"
  by (induction ds) (simp_all add: toLowerCase_def lowerChar_def isDigit_not_upper)

lemma toLowerCase_append: "toLowerCase (a @ b) = toLowerCase a @ toLowerCase b"
  by (simp add: toLowerCase_def)

lemma trim_id: "s \<noteq> [] \<Longrightarrow> \<not> isSpace (hd s) \<Longrightarrow> \<not> isSpace (last s) \<Longrightarrow> trim s = s"
proof -
  assume a: "s \<noteq> []" "\<not> isSpace (hd s)" "\<not> isSpace (last s)"
  then have "dropWhile isSpace s = s"
    by (cases s) simp_all
  moreover from a have "dropWhile isSpace (rev s) = rev s"
    by (cases "rev s") (simp_all add: last_rev [symmetric] hd_rev)
  ultimately show ?thesis
    by (simp add: trim_def)
qed

lemma normalize_digits:
  assumes "\<forall>c\<in>set ds. isDigit c" "ds \<noteq> []" "pre \<noteq> []" "\<not> isSpace (hd (toLowerCase pre))"
  shows "normalize (pre @ ds) = toLowerCase pre @ ds"
proof -
  have "toLowerCase (pre @ ds) = toLowerCase pre @ ds"
    using assms(1) by (simp add: toLowerCase_append toLowerCase_digits)
  moreover have "trim (toLowerCase pre @ ds) = toLowerCase pre @ ds"
  proof (rule trim_id)
    show "toLowerCase pre @ ds \<noteq> []" using assms(2) by simp
    show "\<not> isSpace (hd (toLowerCase pre @ ds))"
      using assms(3,4) by (simp add: toLowerCase_def)
    show "\<not> isSpace (last (toLowerCase pre @ ds))"
      using assms(1,2) by (simp add: isDigit_not_space)
  qed
  ultimately show ?thesis
    by (simp add: normalize_def)
qed


lemma consume_all: "ds \<noteq> [] \<Longrightarrow> consume (length ds) p ds = (Some (last ds), [])"
  by (induction ds arbitrary: p) auto

lemma takeWhile_digits: "\<forall>c\<in>set ds. isDigit c \<Longrightarrow> takeWhile (inCls Digit) ds = ds"
  by (induction ds) simp_all

lemma takeWhile_space_digits: "\<forall>c\<in>set ds. isDigit c \<Longrightarrow> takeWhile (inCls Space) ds = []"
  by (cases ds) (simp_all add: isDigit_not_space)

lemma plus_digit_head:
  assumes "\<forall>c\<in>set ds. isDigit c" "ds \<noteq> []"
  shows "\<exists>rest. seqM [Grp (Plus Digit), Bnd] (p, ds, caps)
           = (Some (last ds), [], caps @ [ds]) # rest"
proof -
  let ?f = "\<lambda>j. case consume j p ds of (p', s') \<Rightarrow> (p', s', caps @ [take (length ds - length s') ds])"
  have up: "[Suc 0 ..< Suc (length ds)] = [Suc 0 ..< length ds] @ [length ds]"
    using assms(2) by (cases ds) simp_all
  have a: "stepM (Grp (Plus Digit)) (p, ds, caps) = map ?f (rev [Suc 0 ..< Suc (length ds)])"
    by (simp add: takeWhile_digits [OF assms(1)] del: upt_Suc)
  have f: "?f (length ds) = (Some (last ds), [], caps @ [ds])"
    using assms(2) by (simp add: consume_all)
  have st: "stepM (Grp (Plus Digit)) (p, ds, caps)
      = (Some (last ds), [], caps @ [ds]) # map ?f (rev [Suc 0 ..< length ds])"
    unfolding a up using f by simp
  have w: "isWordOpt (Some (last ds))"
    using assms by (simp add: isWordOpt_def isDigit_word)
  have b: "seqM [Bnd] (Some (last ds), [], caps @ [ds]) = [(Some (last ds), [], caps @ [ds])]"
    using w by (simp add: isWordOpt_def nextChar_def)
  have "seqM [Grp (Plus Digit), Bnd] (p, ds, caps)
      = seqM [Bnd] (Some (last ds), [], caps @ [ds])
        @ concat (map (seqM [Bnd]) (map ?f (rev [Suc 0 ..< length ds])))"
    unfolding seqM.simps(2) [of "Grp (Plus Digit)"] st by (simp only: list.map concat.simps)
  then show ?thesis
    unfolding b by simp
qed

lemma robot_seq_amr:
  assumes "\<forall>c\<in>set ds. isDigit c" "ds \<noteq> []"
  shows "\<exists>rest. seqM robotIdPattern (None, ''amr '' @ ds, []) = (Some (last ds), [], [''amr'', ds]) # rest"
proof -
  obtain rest where r: "seqM [Grp (Plus Digit), Bnd] (Some (CHR '' ''), ds, [''amr''])
      = (Some (last ds), [], [''amr''] @ [ds]) # rest"
    using plus_digit_head [OF assms] by blast
  have s1: "stepM Bnd (None, ''amr '' @ ds, []) = [(None, ''amr '' @ ds, [])]"
    by (simp add: isWordOpt_def nextChar_def isWordChar_code)
  have s2: "stepM (Grp (Words [''amr'', ''robot''])) (None, ''amr '' @ ds, [])
      = [(Some (CHR ''r''), '' '' @ ds, [''amr''])]"
    by (simp add: wordAt_def asciiLower_code)
  have s3: "stepM (Star Space) (Some (CHR ''r''), '' '' @ ds, [''amr''])
      = [(Some (CHR '' ''), ds, [''amr'']), (Some (CHR ''r''), '' '' @ ds, [''amr''])]"
    by (simp add: takeWhile_space_digits [OF assms(1)] isSpace_code)
  have "seqM robotIdPattern (None, ''amr '' @ ds, [])
      = seqM [Grp (Plus Digit), Bnd] (Some (CHR '' ''), ds, [''amr''])
        @ seqM [Grp (Plus Digit), Bnd] (Some (CHR ''r''), '' '' @ ds, [''amr''])"
    unfolding robotIdPattern_def seqM.simps s1 by (simp only: list.map concat.simps append_Nil2 s2 seqM.simps s3)
  with r show ?thesis
    by simp
qed


lemma robot_seq_robot:
  assumes "\<forall>c\<in>set ds. isDigit c" "ds \<noteq> []"
  shows "\<exists>rest. seqM robotIdPattern (None, ''robot '' @ ds, [])
           = (Some (last ds), [], [''robot'', ds]) # rest"
proof -
  obtain rest where r: "seqM [Grp (Plus Digit), Bnd] (Some (CHR '' ''), ds, [''robot''])
      = (Some (last ds), [], [''robot''] @ [ds]) # rest"
    using plus_digit_head [OF assms] by blast
  have s1: "stepM Bnd (None, ''robot '' @ ds, []) = [(None, ''robot '' @ ds, [])]"
    by (simp add: isWordOpt_def nextChar_def isWordChar_code)
  have s2: "stepM (Grp (Words [''amr'', ''robot''])) (None, ''robot '' @ ds, [])
      = [(Some (CHR ''t''), '' '' @ ds, [''robot''])]"
    by (simp add: wordAt_def asciiLower_code)
  have s3: "stepM (Star Space) (Some (CHR ''t''), '' '' @ ds, [''robot''])
      = [(Some (CHR '' ''), ds, [''robot'']), (Some (CHR ''t''), '' '' @ ds, [''robot''])]"
    by (simp add: takeWhile_space_digits [OF assms(1)] isSpace_code)
  have "seqM robotIdPattern (None, ''robot '' @ ds, [])
      = seqM [Grp (Plus Digit), Bnd] (Some (CHR '' ''), ds, [''robot''])
        @ seqM [Grp (Plus Digit), Bnd] (Some (CHR ''t''), '' '' @ ds, [''robot''])"
    unfolding robotIdPattern_def seqM.simps s1 by (simp only: list.map concat.simps append_Nil2 s2 seqM.simps s3)
  with r show ?thesis
    by simp
qed

lemma rmatch_robot_amr:
  assumes "\<forall>c\<in>set ds. isDigit c" "ds \<noteq> []"
  shows "rmatch robotIdPattern (''amr '' @ ds) = Some [''amr'', ds]"
proof -
  obtain rest where "seqM robotIdPattern (None, ''amr '' @ ds, [])
      = (Some (last ds), [], [''amr'', ds]) # rest"
    using robot_seq_amr [OF assms] by blast
  then show ?thesis
    by (simp add: rmatch_def)
qed

lemma rmatch_robot_robot:
  assumes "\<forall>c\<in>set ds. isDigit c" "ds \<noteq> []"
  shows "rmatch robotIdPattern (''robot '' @ ds) = Some [''robot'', ds]"
proof -
  obtain rest where "seqM robotIdPattern (None, ''robot '' @ ds, [])
      = (Some (last ds), [], [''robot'', ds]) # rest"
    using robot_seq_robot [OF assms] by blast
  then show ?thesis
    by (simp add: rmatch_def)
qed

lemma words_none: "\<forall>w\<in>set ws. \<not> startsWithCI w s \<Longrightarrow> atomM (Words ws) p s = []"
  by (induction ws) (simp_all add: wordAt_def)

lemma word_first_none:
  assumes "\<forall>w\<in>set ws. \<not> startsWithCI w s"
  shows "seqM (Bnd # Grp (Words ws) # rest) (p, s, caps) = []"
    and "seqM (Bnd # Words ws # rest) (p, s, caps) = []"
  using words_none [OF assms] by simp_all

lemma search_none:
  "(\<And>n p'. n \<le> length s \<Longrightarrow> seqM re (p', drop n s, []) = []) \<Longrightarrow> searchFrom re p s = None"
proof (induction s arbitrary: p)
  case Nil
  from Nil [of 0 p] show ?case by simp
next
  case (Cons c s)
  have "seqM re (p, c # s, []) = []"
    using Cons.prems [of 0 p] by simp
  moreover have "searchFrom re (Some c) s = None"
  proof (rule Cons.IH)
    fix n p'
    assume "n \<le> length s"
    then show "seqM re (p', drop n s, []) = []"
      using Cons.prems [of "Suc n" p'] by simp
  qed
  ultimately show ?case by simp
qed

lemma starts_digits:
  "\<forall>c\<in>set ds. isDigit c \<Longrightarrow> w \<noteq> [] \<Longrightarrow> \<not> isDigit (hd w) \<Longrightarrow> \<not> startsWithCI w ds"
  by (cases w; cases ds) (auto simp: asciiLower_digit)

lemma starts_append_digits:
  "\<forall>c\<in>set ds. isDigit c \<Longrightarrow> \<forall>c\<in>set w. \<not> isDigit c \<Longrightarrow>
   startsWithCI w (u @ ds) = (length w \<le> length u \<and> startsWithCI w u)"
proof (induction w arbitrary: u)
  case Nil
  show ?case by simp
next
  case (Cons c w)
  show ?case
  proof (cases u)
    case Nil
    with Cons.prems starts_digits [of ds "c # w"] show ?thesis by simp
  next
    case (Cons d u')
    with Cons.IH [of u'] Cons.prems show ?thesis by auto
  qed
qed

lemma avoid_none:
  assumes "wordsAvoid ws pre" "\<forall>c\<in>set ds. isDigit c" "n \<le> length (pre @ ds)" "w \<in> set ws"
  shows "\<not> startsWithCI w (drop n (pre @ ds))"
proof -
  from assms(1,4) have w: "w \<noteq> []" "\<forall>c\<in>set w. \<not> isDigit c"
    and pos: "\<forall>k < length pre. length pre - k < length w \<or> \<not> startsWithCI w (drop k pre)"
    by (auto simp: wordsAvoid_def list_all_iff)
  show ?thesis
  proof (cases "n < length pre")
    case True
    with pos have "length pre - n < length w \<or> \<not> startsWithCI w (drop n pre)"
      by simp
    then show ?thesis
      using True starts_append_digits [OF assms(2) w(2), of "drop n pre"] by auto
  next
    case False
    then have "drop n (pre @ ds) = drop (n - length pre) ds"
      by simp
    moreover have "\<forall>c\<in>set (drop (n - length pre) ds). isDigit c"
      using assms(2) by (auto dest: in_set_dropD)
    moreover from w have "\<not> isDigit (hd w)"
      by (cases w) simp_all
    ultimately show ?thesis
      using starts_digits [of "drop (n - length pre) ds" w] w(1) by simp
  qed
qed

lemma keyword_none:
  assumes "wordsAvoid ws pre" "\<forall>c\<in>set ds. isDigit c"
  shows "\<not> rtest (kwPattern ws) (pre @ ds)"
proof -
  have "searchFrom (kwPattern ws) None (pre @ ds) = None"
  proof (rule search_none)
    fix n p'
    assume "n \<le> length (pre @ ds)"
    then have "\<forall>w\<in>set ws. \<not> startsWithCI w (drop n (pre @ ds))"
      using avoid_none [OF assms] by blast
    then show "seqM (kwPattern ws) (p', drop n (pre @ ds), []) = []"
      unfolding kwPattern_def by (rule word_first_none(1))
  qed
  then show ?thesis
    by (simp add: rtest_def rmatch_def)
qed

lemma zone_none:
  assumes "wordsAvoid [''zone''] pre" "\<forall>c\<in>set ds. isDigit c"
  shows "rmatch zoneIdPattern (pre @ ds) = None"
proof -
  have "searchFrom zoneIdPattern None (pre @ ds) = None"
  proof (rule search_none)
    fix n p'
    assume "n \<le> length (pre @ ds)"
    then have "\<forall>w\<in>set [''zone'']. \<not> startsWithCI w (drop n (pre @ ds))"
      using avoid_none [OF assms] by blast
    then show "seqM zoneIdPattern (p', drop n (pre @ ds), []) = []"
      unfolding zoneIdPattern_def by (rule word_first_none(2))
  qed
  then show ?thesis
    by (simp add: rmatch_def)
qed

lemma avoid_amr:
  "wordsAvoid [''zone''] ''amr ''"
  "wordsAvoid [''battery'', ''charging'', ''energy'', ''power'', ''charge'', ''charged''] ''amr ''"
  "wordsAvoid [''efficiency'', ''performance'', ''productivity'', ''effective'', ''output'',
     ''throughput'', ''production'', ''optimization''] ''amr ''"
  "wordsAvoid [''maintenance'', ''broken'', ''repair'', ''fix'', ''issue'', ''problem'',
     ''malfunction''] ''amr ''"
  "wordsAvoid [''tool'', ''equipment'', ''attachment'', ''device'', ''implement'', ''accessory'',
     ''apparatus'', ''instrument''] ''amr ''"
  "wordsAvoid [''status'', ''state'', ''condition'', ''health'', ''operational'',
     ''functioning''] ''amr ''"
  "wordsAvoid [''priority'', ''important'', ''critical'', ''urgent'', ''crucial'', ''essential'',
     ''vital'', ''significance'', ''key'', ''main''] ''amr ''"
  "wordsAvoid [''traffic'', ''congestion'', ''flow'', ''movement'', ''density'', ''crowded'',
     ''busy'', ''passage'', ''circulation'', ''transit''] ''amr ''"
  "wordsAvoid [''compare'', ''comparison'', ''versus'', ''vs'', ''contrast'', ''difference'',
     ''differential'', ''evaluate'', ''against'', ''between''] ''amr ''"
  by code_simp+

lemma avoid_robot:
  "wordsAvoid [''zone''] ''robot ''"
  "wordsAvoid [''battery'', ''charging'', ''energy'', ''power'', ''charge'', ''charged''] ''robot ''"
  "wordsAvoid [''efficiency'', ''performance'', ''productivity'', ''effective'', ''output'',
     ''throughput'', ''production'', ''optimization''] ''robot ''"
  "wordsAvoid [''maintenance'', ''broken'', ''repair'', ''fix'', ''issue'', ''problem'',
     ''malfunction''] ''robot ''"
  "wordsAvoid [''tool'', ''equipment'', ''attachment'', ''device'', ''implement'', ''accessory'',
     ''apparatus'', ''instrument''] ''robot ''"
  "wordsAvoid [''status'', ''state'', ''condition'', ''health'', ''operational'',
     ''functioning''] ''robot ''"
  "wordsAvoid [''priority'', ''important'', ''critical'', ''urgent'', ''crucial'', ''essential'',
     ''vital'', ''significance'', ''key'', ''main''] ''robot ''"
  "wordsAvoid [''traffic'', ''congestion'', ''flow'', ''movement'', ''density'', ''crowded'',
     ''busy'', ''passage'', ''circulation'', ''transit''] ''robot ''"
  "wordsAvoid [''compare'', ''comparison'', ''versus'', ''vs'', ''contrast'', ''difference'',
     ''differential'', ''evaluate'', ''against'', ''between''] ''robot ''"
  by code_simp+

lemma classify_amr:
  assumes "\<forall>c\<in>set ds. isDigit c" "ds \<noteq> []"
  shows "classify (''amr '' @ ds) = RobotRef [''amr'', ds]"
proof -
  note k = keyword_none [OF _ assms(1), of _ "''amr ''"]
  have "patternCount (''amr '' @ ds) = 1"
    using rmatch_robot_amr [OF assms] zone_none [OF avoid_amr(1) assms(1)]
      k [OF avoid_amr(2)] k [OF avoid_amr(3)] k [OF avoid_amr(4)] k [OF avoid_amr(5)]
      k [OF avoid_amr(6)] k [OF avoid_amr(7)] k [OF avoid_amr(8)] k [OF avoid_amr(9)]
    by (simp add: patternCount_def countIf_def rtest_def batteryPattern_def
        efficiencyPattern_def maintenancePattern_def toolPattern_def statusPattern_def
        priorityPattern_def trafficPattern_def comparePattern_def)
  then show ?thesis
    using rmatch_robot_amr [OF assms] by (simp add: classify_def isComplexQuery_def)
qed

lemma classify_robot:
  assumes "\<forall>c\<in>set ds. isDigit c" "ds \<noteq> []"
  shows "classify (''robot '' @ ds) = RobotRef [''robot'', ds]"
proof -
  note k = keyword_none [OF _ assms(1), of _ "''robot ''"]
  have "patternCount (''robot '' @ ds) = 1"
    using rmatch_robot_robot [OF assms] zone_none [OF avoid_robot(1) assms(1)]
      k [OF avoid_robot(2)] k [OF avoid_robot(3)] k [OF avoid_robot(4)] k [OF avoid_robot(5)]
      k [OF avoid_robot(6)] k [OF avoid_robot(7)] k [OF avoid_robot(8)] k [OF avoid_robot(9)]
    by (simp add: patternCount_def countIf_def rtest_def batteryPattern_def
        efficiencyPattern_def maintenancePattern_def toolPattern_def statusPattern_def
        priorityPattern_def trafficPattern_def comparePattern_def)
  then show ?thesis
    using rmatch_robot_robot [OF assms] by (simp add: classify_def isComplexQuery_def)
qed


lemma handleRobot_found:
  "getRobotById data (parseInt (capture 2 m)) = Some r \<Longrightarrow>
   typeOf (handleRobotQuery m q data) = Some TyRobot
   \<and> dataOf (handleRobotQuery m q data) = Some (DRobot r)"
  by (simp add: handleRobotQuery_def Let_def typeOf_reply dataOf_reply)

lemma handleRobot_missing:
  "getRobotById data (parseInt (capture 2 m)) = None \<Longrightarrow>
   typeOf (handleRobotQuery m q data) = Some TyError
   \<and> dataOf (handleRobotQuery m q data) = Some DNull"
  by (simp add: handleRobotQuery_def Let_def typeOf_reply dataOf_reply)

lemma processQuery_robot_form:
  assumes "query = ''AMR '' @ showNat i \<or> query = ''robot '' @ showNat i"
  shows "\<exists>m. parseInt (capture 2 m) = i
           \<and> processQuery clock query data = handleRobotQuery m (normalize query) data"
proof -
  note d = showNat_digits [of i] showNat_nonempty [of i]
  have la: "toLowerCase ''AMR '' = ''amr ''" and lr: "toLowerCase ''robot '' = ''robot ''"
    by code_simp+
  have sa: "\<not> isSpace (hd (toLowerCase ''AMR ''))" and sr: "\<not> isSpace (hd (toLowerCase ''robot ''))"
    by code_simp+
  from assms show ?thesis
  proof
    assume q: "query = ''AMR '' @ showNat i"
    have n: "normalize query = ''amr '' @ showNat i"
      unfolding q using normalize_digits [OF d _ sa] la by simp
    have "processQuery clock query data
        = handleRobotQuery [''amr'', showNat i] (normalize query) data"
      using classify_amr [OF d] by (simp add: processQuery_def Let_def n)
    then show ?thesis
      by (intro exI [of _ "[''amr'', showNat i]"]) (simp add: capture_def parseInt_showNat)
  next
    assume q: "query = ''robot '' @ showNat i"
    have n: "normalize query = ''robot '' @ showNat i"
      unfolding q using normalize_digits [OF d _ sr] lr by simp
    have "processQuery clock query data
        = handleRobotQuery [''robot'', showNat i] (normalize query) data"
      using classify_robot [OF d] by (simp add: processQuery_def Let_def n)
    then show ?thesis
      by (intro exI [of _ "[''robot'', showNat i]"]) (simp add: capture_def parseInt_showNat)
  qed
qed

text \<open>
  C2. The ids are the non-negative integers below \<open>2^53\<close>, which JavaScript represents
  exactly and writes and parses in plain decimal. For a query "AMR {id}" or
  "robot {id}": when the lookup \<open>getRobotById(id)\<close> returns a robot, the response has type
  \<open>robot\<close> and its data is that robot, so that \<open>data.id\<close> is the id when the robot has that
  id; when the lookup returns nothing, the response has type \<open>error\<close> and null data. And
  the robot handler, on any match whose id the lookup does not find, returns type
  \<open>error\<close> and null data.
\<close>

theorem robot_lookup:
  assumes "i < 2 ^ 53"
    and "query = ''AMR '' @ showNat i \<or> query = ''robot '' @ showNat i"
  shows "(\<forall>r. getRobotById data i = Some r \<longrightarrow>
            typeOf (processQuery clock query data) = Some TyRobot
            \<and> dataOf (processQuery clock query data) = Some (DRobot r))
       \<and> (\<forall>r. getRobotById data i = Some r \<and> r_id r = i \<longrightarrow>
            (\<exists>r'. dataOf (processQuery clock query data) = Some (DRobot r') \<and> r_id r' = i))
       \<and> (getRobotById data i = None \<longrightarrow>
            typeOf (processQuery clock query data) = Some TyError
            \<and> dataOf (processQuery clock query data) = Some DNull)
       \<and> (\<forall>m q. parseInt (capture 2 m) < 2 ^ 53
                \<and> getRobotById data (parseInt (capture 2 m)) = None \<longrightarrow>
            typeOf (handleRobotQuery m q data) = Some TyError
            \<and> dataOf (handleRobotQuery m q data) = Some DNull)"
proof -
  obtain m where m: "parseInt (capture 2 m) = i"
    "processQuery clock query data = handleRobotQuery m (normalize query) data"
    using processQuery_robot_form [OF assms(2)] by blast
  have found: "typeOf (processQuery clock query data) = Some TyRobot
            \<and> dataOf (processQuery clock query data) = Some (DRobot r)"
    if "getRobotById data i = Some r" for r
    using handleRobot_found [of data m r "normalize query"] that by (simp add: m)
  have missing: "typeOf (processQuery clock query data) = Some TyError
            \<and> dataOf (processQuery clock query data) = Some DNull"
    if "getRobotById data i = None"
    using handleRobot_missing [of data m "normalize query"] that by (simp add: m)
  from found missing handleRobot_missing [of data] show ?thesis
    by blast
qed

text \<open>On the sample fleet robot 3 is found and robot 9 is not.\<close>

theorem robot_lookup_witness:
  "typeOf (processQuery (utcClock 0) ''AMR 3'' fleet) = Some TyRobot
   \<and> dataOf (processQuery (utcClock 0) ''AMR 3'' fleet)
       = Some (DRobot (mkRobot 3 ''charging'' ''Zone B'' 25 85 ''Gripper Arm''))
   \<and> (\<exists>r'. dataOf (processQuery (utcClock 0) ''AMR 3'' fleet) = Some (DRobot r') \<and> r_id r' = 3)
   \<and> typeOf (processQuery (utcClock 0) ''robot 9'' fleet) = Some TyError
   \<and> dataOf (processQuery (utcClock 0) ''robot 9'' fleet) = Some DNull
   \<and> typeOf (handleRobotQuery [''robot'', ''9''] ''robot 9'' fleet) = Some TyError
   \<and> dataOf (handleRobotQuery [''robot'', ''9''] ''robot 9'' fleet) = Some DNull"
proof -
  have b3: "(3::nat) < 2 ^ 53" and b9: "(9::nat) < 2 ^ 53"
    by simp_all
  have q3: "''AMR 3'' = ''AMR '' @ showNat 3 \<or> ''AMR 3'' = ''robot '' @ showNat 3"
    by code_simp
  have q9: "''robot 9'' = ''AMR '' @ showNat 9 \<or> ''robot 9'' = ''robot '' @ showNat 9"
    by code_simp
  have g3: "getRobotById fleet 3 = Some (mkRobot 3 ''charging'' ''Zone B'' 25 85 ''Gripper Arm'')"
    "r_id (mkRobot 3 ''charging'' ''Zone B'' 25 85 ''Gripper Arm'') = 3"
    by code_simp+
  have g9: "getRobotById fleet 9 = None"
    by code_simp
  have p9: "parseInt (capture 2 [''robot'', ''9'']) = 9"
    by code_simp
  from robot_lookup [OF b3 q3, of fleet "utcClock 0"] g3
  have "typeOf (processQuery (utcClock 0) ''AMR 3'' fleet) = Some TyRobot
   \<and> dataOf (processQuery (utcClock 0) ''AMR 3'' fleet)
       = Some (DRobot (mkRobot 3 ''charging'' ''Zone B'' 25 85 ''Gripper Arm''))
   \<and> (\<exists>r'. dataOf (processQuery (utcClock 0) ''AMR 3'' fleet) = Some (DRobot r') \<and> r_id r' = 3)"
    by blast
  moreover from robot_lookup [OF b9 q9, of fleet "utcClock 0"] g9
  have "typeOf (processQuery (utcClock 0) ''robot 9'' fleet) = Some TyError
   \<and> dataOf (processQuery (utcClock 0) ''robot 9'' fleet) = Some DNull"
    by blast
  moreover from robot_lookup [OF b9 q9, of fleet "utcClock 0"] g9 p9 b9
  have "typeOf (handleRobotQuery [''robot'', ''9''] ''robot 9'' fleet) = Some TyError
   \<and> dataOf (handleRobotQuery [''robot'', ''9''] ''robot 9'' fleet) = Some DNull"
    by metis
  ultimately show ?thesis
    by (simp add: g3)
qed

end
